theory Spec2Isabelle
  imports Main
begin

section \<open>Star schema materialization (star\_schema.ipynb)\<close>

text \<open>
  The notebook builds a star schema from one flat dataset: a registry of dimension
  specifications, one deduplicated dimension table per specification, the schema of the
  fact table, and the fact rows with every natural key replaced by the surrogate key of
  its dimension row. The notebook's cells are modelled in their order; the operations of
  the data-frame engine and of the relational store that the cells call are modelled
  next to the cell that first uses them.
\<close>

subsection \<open>Errors\<close>

text \<open>
  Every exception a cell can raise is a value. The engine's analysis errors carry the
  column name, the store's errors carry the name of the object they are about.
  \<open>UnsupportedType\<close> is not an exception of the engine: it marks a type name outside
  the three column types of this model, where the model stops.
\<close>

datatype error =
    ConfigurationError string
  | AnalysisException string
  | IndexError
  | UndefinedTable string
  | UndefinedColumn string
  | DuplicateObject string
  | InvalidTableDefinition string
  | InvalidForeignKey string
  | ForeignKeyViolation string
  | UniqueViolation string
  | NotNullViolation string
  | DependentObjectsStillExist string
  | DatatypeMismatch string
  | NumericValueOutOfRange string
  | DuplicateColumn string
  | UnsupportedType string
  | SyntaxError

subsection \<open>Python dictionaries\<close>

text \<open>
  A Python \<open>dict\<close> keeps its keys in insertion order; storing under a key that is
  already present replaces the value and leaves the key where it is. It is an
  association list with pairwise distinct keys.
\<close>

fun dict_set :: "('k \<times> 'v) list \<Rightarrow> 'k \<Rightarrow> 'v \<Rightarrow> ('k \<times> 'v) list" where
  "dict_set [] k v = [(k, v)]"
| "dict_set ((k', v') # d) k v =
     (if k' = k then (k', v) # d else (k', v') # dict_set d k v)"

text \<open>\<open>d.update(other)\<close>: the items of \<open>other\<close> are stored in their order.\<close>

definition dict_update :: "('k \<times> 'v) list \<Rightarrow> ('k \<times> 'v) list \<Rightarrow> ('k \<times> 'v) list" where
  "dict_update d other = fold (\<lambda>kv acc. dict_set acc (fst kv) (snd kv)) other d"

text \<open>A dict display or comprehension: the items are stored, in order, into an empty dict.\<close>

definition dict_of :: "('k \<times> 'v) list \<Rightarrow> ('k \<times> 'v) list" where
  "dict_of its = dict_update [] its"

definition dict_keys :: "('k \<times> 'v) list \<Rightarrow> 'k list" where
  "dict_keys d = map fst d"

definition dict_values :: "('k \<times> 'v) list \<Rightarrow> 'v list" where
  "dict_values d = map snd d"

subsection \<open>The dimension spec registry\<close>

record field_spec =
  field :: string
  type :: string

type_synonym table_config = "field_spec list"

text \<open>
  \<open>str.upper()\<close> on the ASCII letters (the column names of the notebook are ASCII);
  every other character is left as it is.
\<close>

definition upper_char :: "char \<Rightarrow> char" where
  "upper_char c =
     (case map_of (zip ''abcdefghijklmnopqrstuvwxyz'' ''ABCDEFGHIJKLMNOPQRSTUVWXYZ'') c of
        Some u \<Rightarrow> u
      | None \<Rightarrow> c)"

definition upper :: "string \<Rightarrow> string" where
  "upper s = map upper_char s"

definition INTEGER_DIMENSIONS :: "string list" where
  "INTEGER_DIMENSIONS =
     [''TP_DEPENDENCIA'', ''TP_LOCALIZACAO'', ''IN_AGUA_POTAVEL'',
      ''IN_ENERGIA_INEXISTENTE'', ''IN_ESGOTO_INEXISTENTE'', ''IN_BANHEIRO'',
      ''IN_BIBLIOTECA'', ''IN_REFEITORIO'', ''IN_COMPUTADOR'', ''IN_INTERNET'',
      ''IN_EQUIP_NENHUM'']"

text \<open>The hand-written part of \<open>DIMENSION_TABLES_CONFIG\<close>, before the update.\<close>

definition HAND_WRITTEN_CONFIG :: "(string \<times> table_config) list" where
  "HAND_WRITTEN_CONFIG = dict_of
     [(''DIM_LOCAL'',
       [\<lparr>field = ''NO_UF'', type = ''string''\<rparr>,
        \<lparr>field = ''SG_UF'', type = ''string''\<rparr>,
        \<lparr>field = ''CO_UF'', type = ''string''\<rparr>,
        \<lparr>field = ''NO_MUNICIPIO'', type = ''string''\<rparr>,
        \<lparr>field = ''CO_MUNICIPIO'', type = ''string''\<rparr>])]"

text \<open>One item of the comprehension \<open>{"DIM_"+dimension.upper(): {"fields": [...]}}\<close>.\<close>

definition integer_dimension :: "string \<Rightarrow> string \<times> table_config" where
  "integer_dimension dimension =
     (''DIM_'' @ upper dimension, [\<lparr>field = dimension, type = ''integer''\<rparr>])"

text \<open>
  \<open>DIMENSION_TABLES_CONFIG.update({... for dimension in INTEGER_DIMENSIONS})\<close>, as a
  function of the hand-written dict and of the list of flag columns. Neither the
  comprehension nor \<open>update\<close> has a raising branch: the result is always \<open>Inr\<close>.
\<close>

definition update_dimension_tables_config ::
  "(string \<times> table_config) list \<Rightarrow> string list \<Rightarrow> error + (string \<times> table_config) list" where
  "update_dimension_tables_config config dimensions =
     Inr (dict_update config (dict_of (map integer_dimension dimensions)))"

definition dimension_tables_config ::
  "(string \<times> table_config) list \<Rightarrow> string list \<Rightarrow> (string \<times> table_config) list" where
  "dimension_tables_config config dimensions =
     dict_update config (dict_of (map integer_dimension dimensions))"

definition DIMENSION_TABLES_CONFIG :: "(string \<times> table_config) list" where
  "DIMENSION_TABLES_CONFIG = dimension_tables_config HAND_WRITTEN_CONFIG INTEGER_DIMENSIONS"

subsection \<open>Data frames\<close>

text \<open>
  A data frame of the engine is a schema (column names with their types, in order; names
  may repeat) and a list of rows, each row holding one value per column. The model has
  the three column types the notebook's columns take (32-bit \<open>integer\<close>, 64-bit
  \<open>bigint\<close>, \<open>string\<close>); every column is nullable.
\<close>

datatype val = Null | IntV int | StrV string

datatype dtype = IntegerType | LongType | StringType

record frame =
  schema :: "(string \<times> dtype) list"
  rows :: "val list list"

definition in_int32 :: "int \<Rightarrow> bool" where
  "in_int32 i = (- (2 ^ 31) \<le> i \<and> i < 2 ^ 31)"

definition in_int64 :: "int \<Rightarrow> bool" where
  "in_int64 i = (- (2 ^ 63) \<le> i \<and> i < 2 ^ 63)"

fun conforms :: "dtype \<Rightarrow> val \<Rightarrow> bool" where
  "conforms t Null = True"
| "conforms IntegerType (IntV i) = in_int32 i"
| "conforms LongType (IntV i) = in_int64 i"
| "conforms StringType (StrV s) = True"
| "conforms t v = False"

text \<open>A frame the engine can hold: every row has one value of the column's type per column.\<close>

definition well_formed :: "frame \<Rightarrow> bool" where
  "well_formed df = list_all (\<lambda>r. list_all2 conforms (map snd (schema df)) r) (rows df)"

definition columns :: "frame \<Rightarrow> string list" where
  "columns df = map fst (schema df)"

subsection \<open>Column resolution\<close>

text \<open>
  The session leaves \<open>spark.sql.caseSensitive\<close> at its default: the engine compares
  column names without regard to case (here: of the ASCII letters).
\<close>

definition lower_char :: "char \<Rightarrow> char" where
  "lower_char c =
     (case map_of (zip ''ABCDEFGHIJKLMNOPQRSTUVWXYZ'' ''abcdefghijklmnopqrstuvwxyz'') c of
        Some l \<Rightarrow> l
      | None \<Rightarrow> c)"

definition lower :: "string \<Rightarrow> string" where
  "lower s = map lower_char s"

definition same_name :: "string \<Rightarrow> string \<Rightarrow> bool" where
  "same_name a b = (lower a = lower b)"

definition positions :: "string list \<Rightarrow> string \<Rightarrow> nat list" where
  "positions names n = filter (\<lambda>i. same_name (names ! i) n) [0..<length names]"

text \<open>
  In a projection a column name resolves to the one position that carries it; the engine
  raises an analysis error when no column or more than one column has the name.
\<close>

definition resolve :: "string list \<Rightarrow> string \<Rightarrow> error + nat" where
  "resolve names n =
     (case positions names n of
        [i] \<Rightarrow> Inr i
      | _ \<Rightarrow> Inl (AnalysisException n))"

text \<open>
  The key columns of a join by column names are looked up one side at a time: the first
  column of that name is taken, and the error is raised only when there is none.
\<close>

definition first_position :: "string list \<Rightarrow> string \<Rightarrow> error + nat" where
  "first_position names n =
     (case positions names n of
        [] \<Rightarrow> Inl (AnalysisException n)
      | i # _ \<Rightarrow> Inr i)"

text \<open>The first error of a list of results, or all the values.\<close>

fun sequence :: "(error + 'a) list \<Rightarrow> error + 'a list" where
  "sequence [] = Inr []"
| "sequence (x # xs) =
     (case x of
        Inl e \<Rightarrow> Inl e
      | Inr a \<Rightarrow> (case sequence xs of Inl e \<Rightarrow> Inl e | Inr as \<Rightarrow> Inr (a # as)))"

text \<open>
  \<open>df.select(names)\<close>: the named columns, in the order asked for, uncast; a column
  comes out under the name it was asked for.
\<close>

definition select :: "string list \<Rightarrow> frame \<Rightarrow> error + frame" where
  "select names df =
     (case sequence (map (resolve (columns df)) names) of
        Inl e \<Rightarrow> Inl e
      | Inr ixs \<Rightarrow>
          Inr \<lparr>schema = map (\<lambda>(n, i). (n, snd (schema df ! i))) (zip names ixs),
               rows = map (\<lambda>r. map (\<lambda>i. r ! i) ixs) (rows df)\<rparr>)"

subsection \<open>Casts\<close>

text \<open>
  Two's-complement narrowing, as the engine's non-ANSI cast of an integral value does.
\<close>

definition wrap32 :: "int \<Rightarrow> int" where
  "wrap32 i = (i + 2 ^ 31) mod 2 ^ 32 - 2 ^ 31"

definition wrap64 :: "int \<Rightarrow> int" where
  "wrap64 i = (i + 2 ^ 63) mod 2 ^ 64 - 2 ^ 63"

definition digit_chars :: string where
  "digit_chars = ''0123456789''"

fun nat_to_str :: "nat \<Rightarrow> string" where
  "nat_to_str n =
     (if n < 10 then [digit_chars ! n] else nat_to_str (n div 10) @ [digit_chars ! (n mod 10)])"

definition int_to_str :: "int \<Rightarrow> string" where
  "int_to_str i = (if i < 0 then CHR ''-'' # nat_to_str (nat (- i)) else nat_to_str (nat i))"

definition digit_value :: "char \<Rightarrow> nat option" where
  "digit_value c = map_of (zip digit_chars [0..<10]) c"

fun digits_to_nat :: "nat \<Rightarrow> string \<Rightarrow> nat option" where
  "digits_to_nat acc [] = Some acc"
| "digits_to_nat acc (c # cs) =
     (case digit_value c of
        None \<Rightarrow> None
      | Some d \<Rightarrow> digits_to_nat (10 * acc + d) cs)"

text \<open>
  The engine's reading of a string as an integral number: white space and control
  characters are trimmed at both ends, a sign may lead, the digits follow, and a decimal
  point may follow them with more digits that are checked and dropped. Anything else is
  not a number.
\<close>

definition blank :: "char \<Rightarrow> bool" where
  "blank c = ((of_char c :: nat) \<le> 32 \<or> (of_char c :: nat) = 127)"

definition trim :: "string \<Rightarrow> string" where
  "trim s = rev (dropWhile blank (rev (dropWhile blank s)))"

definition str_to_int :: "string \<Rightarrow> int option" where
  "str_to_int s =
     (let t = trim s;
          signed = (t \<noteq> [] \<and> (hd t = CHR ''-'' \<or> hd t = CHR ''+''));
          body = (if signed then tl t else t);
          whole = takeWhile (\<lambda>c. c \<noteq> CHR ''.'') body;
          fraction = drop 1 (dropWhile (\<lambda>c. c \<noteq> CHR ''.'') body)
      in if body = [] then None
         else (case (digits_to_nat 0 whole, digits_to_nat 0 fraction) of
                 (Some n, Some _) \<Rightarrow> Some (if hd t = CHR ''-'' then - int n else int n)
               | _ \<Rightarrow> None))"

text \<open>
  \<open>col.cast(type)\<close> by target type. A string that is not a number, or a number outside
  the target's range, becomes null; an integral value that does not fit wraps around.
\<close>

fun cast :: "dtype \<Rightarrow> val \<Rightarrow> val" where
  "cast t Null = Null"
| "cast IntegerType (IntV i) = IntV (wrap32 i)"
| "cast LongType (IntV i) = IntV (wrap64 i)"
| "cast StringType (IntV i) = StrV (int_to_str i)"
| "cast IntegerType (StrV s) =
     (case str_to_int s of
        Some i \<Rightarrow> if in_int32 i then IntV i else Null
      | None \<Rightarrow> Null)"
| "cast LongType (StrV s) =
     (case str_to_int s of
        Some i \<Rightarrow> if in_int64 i then IntV i else Null
      | None \<Rightarrow> Null)"
| "cast StringType (StrV s) = StrV s"

text \<open>
  The type names of the three column types, which the engine reads without regard to
  case. The engine knows many more types; any other name is outside this model.
\<close>

definition parse_type :: "string \<Rightarrow> error + dtype" where
  "parse_type name =
     (if lower name = ''integer'' \<or> lower name = ''int'' then Inr IntegerType
      else if lower name = ''bigint'' \<or> lower name = ''long'' then Inr LongType
      else if lower name = ''string'' then Inr StringType
      else Inl (UnsupportedType name))"

text \<open>
  \<open>data.select([F.col(field["field"]).cast(field["type"]).alias(field["field"]) for field
  in table_config["fields"]])\<close>: the cast columns are built first (the type names are read
  there), then the engine resolves the column names; a column comes out under its alias.
\<close>

definition select_cast :: "table_config \<Rightarrow> frame \<Rightarrow> error + frame" where
  "select_cast table_fields df =
     (case sequence (map (\<lambda>fd. parse_type (type fd)) table_fields) of
        Inl e \<Rightarrow> Inl e
      | Inr types \<Rightarrow>
          (case sequence (map (\<lambda>fd. resolve (columns df) (field fd)) table_fields) of
             Inl e \<Rightarrow> Inl e
           | Inr ixs \<Rightarrow>
               Inr \<lparr>schema = zip (map field table_fields) types,
                    rows = map (\<lambda>r. map (\<lambda>(i, t). cast t (r ! i)) (zip ixs types)) (rows df)\<rparr>))"

subsection \<open>Deduplication and surrogate keys\<close>

text \<open>
  \<open>df.distinct()\<close> shuffles the rows: equal rows (nulls equal) meet in one partition and
  one of them is kept. The session sets \<open>spark.sql.shuffle.partitions\<close> to 4. Which
  partition a row lands in is the engine's business: it is the parameter \<open>part\<close> (taken
  modulo the number of partitions) of everything below.
\<close>

definition shuffle_partitions :: nat where
  "shuffle_partitions = 4"

definition distinct_partitions :: "(val list \<Rightarrow> nat) \<Rightarrow> val list list \<Rightarrow> val list list list" where
  "distinct_partitions part rs =
     map (\<lambda>p. filter (\<lambda>r. part r mod shuffle_partitions = p) (remdups rs))
       [0..<shuffle_partitions]"

text \<open>
  \<open>F.monotonically_increasing_id()\<close>: the partition index in the upper 31 bits, the
  number of the record within its partition in the lower 33 bits, in 64-bit arithmetic.
\<close>

definition monotonically_increasing_id :: "nat \<Rightarrow> nat \<Rightarrow> int" where
  "monotonically_increasing_id p n = wrap64 (int p * 2 ^ 33 + int n)"

definition partition_ids :: "val list list list \<Rightarrow> int list" where
  "partition_ids parts =
     concat (map (\<lambda>p. map (monotonically_increasing_id p) [0..<length (parts ! p)])
       [0..<length parts])"

text \<open>
  \<open>df.withColumn(name, col)\<close> with one value per row: every column of that name
  (compared without regard to case) is replaced where it stands and takes the new name;
  when there is none the column is added last.
\<close>

definition withColumn :: "string \<Rightarrow> dtype \<Rightarrow> val list \<Rightarrow> frame \<Rightarrow> frame" where
  "withColumn name t vs df =
     (if list_ex (\<lambda>c. same_name c name) (columns df)
      then \<lparr>schema = map (\<lambda>c. if same_name (fst c) name then (name, t) else c) (schema df),
            rows = map (\<lambda>(r, v). map (\<lambda>(c, x). if same_name (fst c) name then v else x)
                                   (zip (schema df) r))
                     (zip (rows df) vs)\<rparr>
      else \<lparr>schema = schema df @ [(name, t)],
            rows = map (\<lambda>(r, v). r @ [v]) (zip (rows df) vs)\<rparr>)"

text \<open>
  The frame a dimension table is written from:
  \<open>data.select([...cast...]).distinct().withColumn("id", F.monotonically_increasing_id())\<close>.
\<close>

definition dimension_frame :: "(val list \<Rightarrow> nat) \<Rightarrow> frame \<Rightarrow> table_config \<Rightarrow> error + frame" where
  "dimension_frame part data table_fields =
     (case select_cast table_fields data of
        Inl e \<Rightarrow> Inl e
      | Inr df \<Rightarrow>
          (let parts = distinct_partitions part (rows df)
           in Inr (withColumn ''id'' LongType (map IntV (partition_ids parts))
                     \<lparr>schema = schema df, rows = concat parts\<rparr>)))"

subsection \<open>The relational store\<close>

text \<open>
  A table of the store: its columns with their SQL types, its rows, the column of its
  primary key if it has one, its foreign-key constraints (constraint name, column,
  referenced table; the referenced column is always the referenced table's \<open>id\<close>) and the
  next value of its \<open>SERIAL\<close> sequence. The store is a list of named tables with
  pairwise distinct names.
\<close>

datatype sqltype = INTEGER | BIGINT | TEXT | SERIAL

record table =
  tcolumns :: "(string \<times> sqltype) list"
  trows :: "val list list"
  primary_key :: "string option"
  foreign_keys :: "(string \<times> string \<times> string) list"
  next_serial :: int

type_synonym store = "(string \<times> table) list"

text \<open>
  The store keeps 63 bytes of an identifier, and folds an identifier written without
  quotes to lower case (of the ASCII letters, as above). The connector writes table
  names without quotes and column names with quotes; the statements the notebook sends
  through \<open>cursor.execute\<close> quote nothing.
\<close>

definition quoted_identifier :: "string \<Rightarrow> string" where
  "quoted_identifier name = take 63 name"

definition fold_identifier :: "string \<Rightarrow> string" where
  "fold_identifier name = take 63 (lower name)"

text \<open>The type mapping of the JDBC connector, both ways.\<close>

fun jdbc_type :: "dtype \<Rightarrow> sqltype" where
  "jdbc_type IntegerType = INTEGER"
| "jdbc_type LongType = BIGINT"
| "jdbc_type StringType = TEXT"

fun spark_type :: "sqltype \<Rightarrow> dtype" where
  "spark_type INTEGER = IntegerType"
| "spark_type SERIAL = IntegerType"
| "spark_type BIGINT = LongType"
| "spark_type TEXT = StringType"

text \<open>\<open>spark.read.jdbc(table=name)\<close>.\<close>

definition read_jdbc :: "store \<Rightarrow> string \<Rightarrow> error + frame" where
  "read_jdbc db name =
     (case map_of db (fold_identifier name) of
        None \<Rightarrow> Inl (UndefinedTable name)
      | Some t \<Rightarrow>
          Inr \<lparr>schema = map (\<lambda>(c, ty). (c, spark_type ty)) (tcolumns t), rows = trows t\<rparr>)"

text \<open>
  \<open>df.write.jdbc(table=name, mode="overwrite")\<close>: the connector drops the table if it
  exists, creates it again from the frame's schema, and inserts the frame's rows; each of
  the three is committed on its own. The old rows and the constraints of the table are
  gone. The store refuses to drop a table that a foreign key of another table references,
  to create a table with two columns of one name, and to insert into one column twice
  (the connector names the target column of a frame column by the first column of the
  frame that has its name, compared without regard to case). The result is the store
  afterwards and the exception raised, if any.
\<close>

definition referenced :: "store \<Rightarrow> string \<Rightarrow> bool" where
  "referenced db name =
     list_ex (\<lambda>(n, t). n \<noteq> name \<and> list_ex (\<lambda>(c, col, ref). ref = name) (foreign_keys t)) db"

definition drop_table :: "store \<Rightarrow> string \<Rightarrow> store" where
  "drop_table db name = filter (\<lambda>(n, t). n \<noteq> name) db"

definition create_table :: "(string \<times> dtype) list \<Rightarrow> table" where
  "create_table sch =
     \<lparr>tcolumns = map (\<lambda>(c, ty). (quoted_identifier c, jdbc_type ty)) sch, trows = [],
      primary_key = None, foreign_keys = [], next_serial = 1\<rparr>"

definition write_jdbc_overwrite :: "string \<Rightarrow> frame \<Rightarrow> store \<Rightarrow> store \<times> error option" where
  "write_jdbc_overwrite name df db =
     (if referenced db (fold_identifier name)
      then (db, Some (DependentObjectsStillExist name))
      else if \<not> distinct (map quoted_identifier (columns df))
      then (drop_table db (fold_identifier name), Some (DuplicateColumn name))
      else if \<not> distinct (map lower (columns df))
      then (dict_set db (fold_identifier name) (create_table (schema df)),
            Some (DuplicateColumn name))
      else (dict_set db (fold_identifier name) ((create_table (schema df))\<lparr>trows := rows df\<rparr>),
            None))"

text \<open>The first position of a value in a list, and the values a table holds in a column.\<close>

fun index_of :: "'a list \<Rightarrow> 'a \<Rightarrow> nat option" where
  "index_of [] x = None"
| "index_of (y # ys) x = (if y = x then Some 0 else map_option Suc (index_of ys x))"

definition column_values :: "table \<Rightarrow> string \<Rightarrow> val list option" where
  "column_values t col =
     (case index_of (map fst (tcolumns t)) col of
        None \<Rightarrow> None
      | Some i \<Rightarrow> Some (map (\<lambda>r. r ! i) (trows t)))"

text \<open>
  \<open>ALTER TABLE name ADD PRIMARY KEY (col)\<close>, both names without quotes. The store builds
  the unique index first (nulls do not count as duplicates there) and then checks that
  the column holds no null.
\<close>

definition add_primary_key :: "string \<Rightarrow> string \<Rightarrow> store \<Rightarrow> error + store" where
  "add_primary_key name col db =
     (case map_of db (fold_identifier name) of
        None \<Rightarrow> Inl (UndefinedTable name)
      | Some t \<Rightarrow>
          (case column_values t (fold_identifier col) of
             None \<Rightarrow> Inl (UndefinedColumn col)
           | Some vs \<Rightarrow>
               if primary_key t \<noteq> None then Inl (InvalidTableDefinition name)
               else if \<not> distinct (filter (\<lambda>v. v \<noteq> Null) vs) then Inl (UniqueViolation name)
               else if Null \<in> set vs then Inl (NotNullViolation col)
               else Inr (dict_set db (fold_identifier name)
                      (t\<lparr>primary_key := Some (fold_identifier col)\<rparr>))))"

subsection \<open>Writing the dimension tables\<close>

text \<open>
  The loop over \<open>DIMENSION_TABLES_CONFIG.items()\<close>: the dimension frame is written with
  \<open>mode="overwrite"\<close>, then \<open>id\<close> is made the primary key and the change is committed.
  Nothing in the loop catches an exception: the first error ends the cell. The result is
  the store as the cell leaves it and the exception that ended it, if any; a table whose
  \<open>ALTER TABLE\<close> failed stays as the connector wrote it, without the key.
\<close>

fun write_dimensions ::
  "(val list \<Rightarrow> nat) \<Rightarrow> frame \<Rightarrow> (string \<times> table_config) list \<Rightarrow> store \<Rightarrow> store \<times> error option" where
  "write_dimensions part data [] db = (db, None)"
| "write_dimensions part data ((table_name, table_fields) # config) db =
     (case dimension_frame part data table_fields of
        Inl e \<Rightarrow> (db, Some e)
      | Inr df \<Rightarrow>
          (case write_jdbc_overwrite table_name df db of
             (db1, Some e) \<Rightarrow> (db1, Some e)
           | (db1, None) \<Rightarrow>
               (case add_primary_key table_name ''id'' db1 of
                  Inl e \<Rightarrow> (db1, Some e)
                | Inr db2 \<Rightarrow> write_dimensions part data config db2)))"

subsection \<open>The fact table's schema\<close>

definition FACT_TABLE_NAME :: string where
  "FACT_TABLE_NAME = ''FACT_CENSO_ESCOLAR''"

definition FACT_COLUMNS :: "string list" where
  "FACT_COLUMNS =
     [''QT_DOC_BAS'', ''QT_DOC_INF'', ''QT_DOC_FUND'', ''QT_DOC_MED'',
      ''QT_MAT_BAS'', ''QT_MAT_INF'', ''QT_MAT_FUND'', ''QT_MAT_MED'',
      ''QT_MAT_BAS_ND'', ''QT_MAT_BAS_BRANCA'', ''QT_MAT_BAS_PRETA'', ''QT_MAT_BAS_PARDA'',
      ''QT_MAT_BAS_AMARELA'', ''QT_MAT_BAS_INDIGENA'',
      ''NU_ANO_CENSO'']"

text \<open>\<open>FACT_CONFIG = {fact: {"fields": [{"field": fact, "type": "integer"}]} for fact in FACT_COLUMNS}\<close>\<close>

definition fact_config :: "string list \<Rightarrow> (string \<times> table_config) list" where
  "fact_config fact_columns =
     dict_of (map (\<lambda>fact. (fact, [\<lparr>field = fact, type = ''integer''\<rparr>])) fact_columns)"

text \<open>
  \<open>DIMENSION_ID_CONFIG = {table_name: [field['field'] for field in table_fields['fields']]
  for table_name, table_fields in DIMENSION_TABLES_CONFIG.items()}\<close>: the declared types
  are left behind, only the field names are kept.
\<close>

definition dimension_id_config :: "(string \<times> table_config) list \<Rightarrow> (string \<times> string list) list" where
  "dimension_id_config config =
     dict_of (map (\<lambda>(table_name, table_fields). (table_name, map field table_fields)) config)"

text \<open>\<open>FACT_COLUMNS + list(map(lambda col: "ID_"+col, DIMENSION_ID_CONFIG.keys()))\<close>\<close>

definition fact_table_all_columns_ordered ::
  "string list \<Rightarrow> (string \<times> string list) list \<Rightarrow> string list" where
  "fact_table_all_columns_ordered fact_columns id_config =
     fact_columns @ map (\<lambda>col. ''ID_'' @ col) (dict_keys id_config)"

definition FACT_CONFIG :: "(string \<times> table_config) list" where
  "FACT_CONFIG = fact_config FACT_COLUMNS"

definition DIMENSION_ID_CONFIG :: "(string \<times> string list) list" where
  "DIMENSION_ID_CONFIG = dimension_id_config DIMENSION_TABLES_CONFIG"

definition FACT_TABLE_ALL_COLUMNS_ORDERED :: "string list" where
  "FACT_TABLE_ALL_COLUMNS_ORDERED =
     fact_table_all_columns_ordered FACT_COLUMNS DIMENSION_ID_CONFIG"

text \<open>\<open>sep.join(items)\<close>\<close>

fun join_str :: "string \<Rightarrow> string list \<Rightarrow> string" where
  "join_str sep [] = []"
| "join_str sep [x] = x"
| "join_str sep (x # y # ys) = x @ sep @ join_str sep (y # ys)"

definition newline :: string where
  "newline = [CHR 0x0A]"

definition comma_break_line :: string where
  "comma_break_line = '','' @ newline @ [CHR 0x09, CHR 0x09, CHR 0x09]"

text \<open>The two list comprehensions inside the f-string of \<open>facts_table_sql\<close>.\<close>

definition column_definitions :: "string list \<Rightarrow> string list \<Rightarrow> string list" where
  "column_definitions fact_columns dim_tables =
     map (\<lambda>field. field @ '' INTEGER'') fact_columns
     @ map (\<lambda>dim_table. ''ID_'' @ dim_table @ '' BIGINT'') dim_tables"

definition constraint_clauses :: "string \<Rightarrow> string list \<Rightarrow> string list" where
  "constraint_clauses fact_table_name dim_tables =
     map (\<lambda>dim_table. ''ADD CONSTRAINT '' @ fact_table_name @ ''_'' @ dim_table
            @ ''_fk FOREIGN KEY (ID_'' @ dim_table @ '') REFERENCES '' @ dim_table @ ''(id)'')
       dim_tables"

text \<open>The text of \<open>facts_table_sql\<close>, as the f-string builds it.\<close>

definition facts_table_sql :: "string \<Rightarrow> string list \<Rightarrow> string list \<Rightarrow> string" where
  "facts_table_sql fact_table_name fact_columns dim_tables =
     newline
     @ ''    CREATE TABLE IF NOT EXISTS '' @ fact_table_name @ '' ('' @ newline
     @ ''        id SERIAL PRIMARY KEY,'' @ newline
     @ ''        '' @ join_str comma_break_line (column_definitions fact_columns dim_tables)
     @ newline
     @ ''    );'' @ newline
     @ ''    '' @ newline
     @ ''    -- Adding Foreign Keys'' @ newline
     @ ''    ALTER TABLE '' @ fact_table_name @ newline
     @ ''    '' @ join_str comma_break_line (constraint_clauses fact_table_name dim_tables)
     @ newline"

text \<open>
  The two statements that text is, as the store reads it when the names in it are
  ordinary identifiers: a conditional table creation with its primary-key column and its
  other columns, and one \<open>ALTER TABLE\<close> with a foreign-key clause (constraint name,
  column, referenced table; the referenced column is \<open>id\<close>) per dimension table. The
  names are kept as they are written.
\<close>

datatype statement =
    CreateTableIfNotExists string "string \<times> sqltype" "(string \<times> sqltype) list"
  | AlterTableAddForeignKeys string "(string \<times> string \<times> string) list"

definition facts_table_statements :: "string \<Rightarrow> string list \<Rightarrow> string list \<Rightarrow> statement list" where
  "facts_table_statements fact_table_name fact_columns dim_tables =
     [CreateTableIfNotExists fact_table_name (''id'', SERIAL)
        (map (\<lambda>field. (field, INTEGER)) fact_columns
           @ map (\<lambda>dim_table. (''ID_'' @ dim_table, BIGINT)) dim_tables),
      AlterTableAddForeignKeys fact_table_name
        (map (\<lambda>dim_table. (fact_table_name @ ''_'' @ dim_table @ ''_fk'', ''ID_'' @ dim_table,
                dim_table)) dim_tables)]"

text \<open>How statements are written, to tie \<open>facts_table_statements\<close> to the text.\<close>

fun sqltype_name :: "sqltype \<Rightarrow> string" where
  "sqltype_name INTEGER = ''INTEGER''"
| "sqltype_name BIGINT = ''BIGINT''"
| "sqltype_name TEXT = ''TEXT''"
| "sqltype_name SERIAL = ''SERIAL''"

definition column_definition :: "string \<times> sqltype \<Rightarrow> string" where
  "column_definition c = fst c @ '' '' @ sqltype_name (snd c)"

definition constraint_clause :: "string \<times> string \<times> string \<Rightarrow> string" where
  "constraint_clause c =
     ''ADD CONSTRAINT '' @ fst c @ '' FOREIGN KEY ('' @ fst (snd c) @ '') REFERENCES ''
     @ snd (snd c) @ ''(id)''"

fun statement_text :: "statement \<Rightarrow> string" where
  "statement_text (CreateTableIfNotExists name key cols) =
     ''    CREATE TABLE IF NOT EXISTS '' @ name @ '' ('' @ newline
     @ ''        '' @ column_definition key @ '' PRIMARY KEY,'' @ newline
     @ ''        '' @ join_str comma_break_line (map column_definition cols) @ newline
     @ ''    );'' @ newline"
| "statement_text (AlterTableAddForeignKeys name clauses) =
     ''    ALTER TABLE '' @ name @ newline
     @ ''    '' @ join_str comma_break_line (map constraint_clause clauses) @ newline"

subsection \<open>Executing the schema statements\<close>

text \<open>
  \<open>CREATE TABLE IF NOT EXISTS\<close> does nothing when a table of that name exists, whatever
  its columns. The names are written without quotes, so the store folds them.
\<close>

definition create_table_if_not_exists ::
  "string \<Rightarrow> string \<times> sqltype \<Rightarrow> (string \<times> sqltype) list \<Rightarrow> store \<Rightarrow> error + store" where
  "create_table_if_not_exists name key cols db =
     (if fold_identifier name \<in> set (dict_keys db) then Inr db
      else if \<not> distinct (map (fold_identifier \<circ> fst) (key # cols))
      then Inl (DuplicateColumn name)
      else Inr (dict_set db (fold_identifier name)
             \<lparr>tcolumns = map (\<lambda>(c, ty). (fold_identifier c, ty)) (key # cols), trows = [],
              primary_key = Some (fold_identifier (fst key)), foreign_keys = [],
              next_serial = 1\<rparr>))"

text \<open>
  The foreign-key clauses of one \<open>ALTER TABLE\<close> against a table \<open>t\<close> of the store \<open>db\<close>,
  one after the other. The store refuses a clause when the table already has a
  constraint of that name, when the referenced table, the column or the referenced
  table's \<open>id\<close> does not exist, when \<open>id\<close> is not the referenced table's primary key, or
  when the two columns cannot be compared (text against a number).
\<close>

fun add_foreign_keys :: "store \<Rightarrow> (string \<times> string \<times> string) list \<Rightarrow> table \<Rightarrow> error + table" where
  "add_foreign_keys db [] t = Inr t"
| "add_foreign_keys db ((c, col, ref) # clauses) t =
     (if fold_identifier c \<in> set (map fst (foreign_keys t)) then Inl (DuplicateObject c)
      else
        (case map_of db (fold_identifier ref) of
           None \<Rightarrow> Inl (UndefinedTable ref)
         | Some rt \<Rightarrow>
             (case map_of (tcolumns t) (fold_identifier col) of
                None \<Rightarrow> Inl (UndefinedColumn col)
              | Some ty \<Rightarrow>
                  (case map_of (tcolumns rt) ''id'' of
                     None \<Rightarrow> Inl (UndefinedColumn ''id'')
                   | Some rty \<Rightarrow>
                       if primary_key rt \<noteq> Some ''id'' then Inl (InvalidForeignKey ref)
                       else if (ty = TEXT) \<noteq> (rty = TEXT) then Inl (DatatypeMismatch c)
                       else add_foreign_keys db clauses
                              (t\<lparr>foreign_keys := foreign_keys t
                                   @ [(fold_identifier c, fold_identifier col,
                                       fold_identifier ref)]\<rparr>)))))"

text \<open>
  A foreign key holds for a list of values when each of them is null or the \<open>id\<close> of a
  row of the referenced table; a constraint (name, column, referenced table) is violated
  by rows of a table when the values of its column do not all hold.
\<close>

definition references_hold :: "store \<Rightarrow> string \<Rightarrow> val list \<Rightarrow> bool" where
  "references_hold db ref vs =
     (case map_of db ref of
        None \<Rightarrow> False
      | Some rt \<Rightarrow>
          (case column_values rt ''id'' of
             None \<Rightarrow> False
           | Some ids \<Rightarrow> list_all (\<lambda>v. v = Null \<or> v \<in> set ids) vs))"

definition violated :: "store \<Rightarrow> table \<Rightarrow> val list list \<Rightarrow> string \<times> string \<times> string \<Rightarrow> bool" where
  "violated db t rs fk =
     (case index_of (map fst (tcolumns t)) (fst (snd fk)) of
        None \<Rightarrow> True
      | Some i \<Rightarrow> \<not> references_hold db (snd (snd fk)) (map (\<lambda>r. r ! i) rs))"

text \<open>
  \<open>ALTER TABLE name ADD CONSTRAINT ..., ADD CONSTRAINT ...\<close>: the clauses are entered
  first, then the rows the table already holds are checked against the new constraints.
\<close>

definition alter_table_add_foreign_keys ::
  "string \<Rightarrow> (string \<times> string \<times> string) list \<Rightarrow> store \<Rightarrow> error + store" where
  "alter_table_add_foreign_keys name clauses db =
     (case map_of db (fold_identifier name) of
        None \<Rightarrow> Inl (UndefinedTable name)
      | Some t \<Rightarrow>
          (case add_foreign_keys db clauses t of
             Inl e \<Rightarrow> Inl e
           | Inr t' \<Rightarrow>
               (case filter (\<lambda>(c, col, ref). violated db t (trows t)
                               (fold_identifier c, fold_identifier col, fold_identifier ref))
                       clauses of
                  (c, col, ref) # _ \<Rightarrow> Inl (ForeignKeyViolation c)
                | [] \<Rightarrow> Inr (dict_set db (fold_identifier name) t'))))"

fun execute_statement :: "statement \<Rightarrow> store \<Rightarrow> error + store" where
  "execute_statement (CreateTableIfNotExists name key cols) db =
     create_table_if_not_exists name key cols db"
| "execute_statement (AlterTableAddForeignKeys name clauses) db =
     alter_table_add_foreign_keys name clauses db"

text \<open>An \<open>ALTER TABLE\<close> with no clause is not a statement: the store rejects the text.\<close>

fun syntax_ok :: "statement \<Rightarrow> bool" where
  "syntax_ok (CreateTableIfNotExists name key cols) = True"
| "syntax_ok (AlterTableAddForeignKeys name clauses) = (clauses \<noteq> [])"

text \<open>
  The connection \<open>conn\<close>: what the store has committed, and what the open transaction of
  the connection sees. \<open>commit\<close> makes the transaction's view the committed state,
  \<open>rollback\<close> throws it away.
\<close>

record connection =
  committed :: store
  session :: store

definition commit :: "connection \<Rightarrow> connection" where
  "commit conn = \<lparr>committed = session conn, session = session conn\<rparr>"

definition rollback :: "connection \<Rightarrow> connection" where
  "rollback conn = \<lparr>committed = committed conn, session = committed conn\<rparr>"

text \<open>
  \<open>cursor.execute(text)\<close> with several statements: the store reads the whole text first,
  then runs the statements in the connection's transaction one after the other; the
  first error leaves the transaction with what ran before it.
\<close>

fun execute_statements :: "statement list \<Rightarrow> store \<Rightarrow> store \<times> error option" where
  "execute_statements [] db = (db, None)"
| "execute_statements (st # sts) db =
     (case execute_statement st db of
        Inl e \<Rightarrow> (db, Some e)
      | Inr db' \<Rightarrow> execute_statements sts db')"

definition cursor_execute :: "statement list \<Rightarrow> connection \<Rightarrow> connection \<times> error option" where
  "cursor_execute statements conn =
     (if \<not> list_all syntax_ok statements then (conn, Some SyntaxError)
      else (case execute_statements statements (session conn) of
              (db, e) \<Rightarrow> (conn\<lparr>session := db\<rparr>, e)))"

text \<open>
  The cell that creates the fact table, on a connection with no failed transaction open:
  \<^verbatim>\<open>
  try:
      cursor.execute(facts_table_sql); cursor.close(); conn.commit()
  except Exception as e:
      print(e); conn.rollback(); cursor.close()
  \<close>
  The result is the connection afterwards and the exception the cell printed, if any.
\<close>

definition create_facts_table :: "statement list \<Rightarrow> connection \<Rightarrow> connection \<times> error option" where
  "create_facts_table statements conn =
     (case cursor_execute statements conn of
        (conn', None) \<Rightarrow> (commit conn', None)
      | (conn', Some e) \<Rightarrow> (rollback conn', Some e))"

subsection \<open>Resolving natural keys to surrogate keys\<close>

text \<open>
  \<open>facts_data = data.select([*chain(*DIMENSION_ID_CONFIG.values(), FACT_CONFIG.keys())])\<close>:
  the natural-key columns of every dimension, then the measures, as \<open>data\<close> has them.
\<close>

definition facts_data ::
  "(string \<times> string list) list \<Rightarrow> (string \<times> table_config) list \<Rightarrow> frame \<Rightarrow> error + frame" where
  "facts_data id_config fact_cfg data =
     select (concat (dict_values id_config) @ dict_keys fact_cfg) data"

text \<open>
  \<open>df.withColumnRenamed(existing, new)\<close>: every column of the name (compared without
  regard to case) takes the new name; nothing happens when there is none.
\<close>

definition withColumnRenamed :: "string \<Rightarrow> string \<Rightarrow> frame \<Rightarrow> frame" where
  "withColumnRenamed existing new df =
     \<lparr>schema = map (\<lambda>c. if same_name (fst c) existing then (new, snd c) else c) (schema df),
      rows = rows df\<rparr>"

text \<open>
  The engine compares two key columns of different types after casting both to a common
  type: a string column takes the type of the other column, a 32-bit column is widened
  against a 64-bit one. A null on either side matches nothing.
\<close>

fun common_type :: "dtype \<Rightarrow> dtype \<Rightarrow> dtype" where
  "common_type StringType t = t"
| "common_type t StringType = t"
| "common_type IntegerType IntegerType = IntegerType"
| "common_type t t' = LongType"

definition key_eq :: "dtype \<Rightarrow> dtype \<Rightarrow> val \<Rightarrow> val \<Rightarrow> bool" where
  "key_eq lt rt a b =
     (cast (common_type lt rt) a \<noteq> Null
      \<and> cast (common_type lt rt) a = cast (common_type lt rt) b)"

definition keys_match :: "dtype list \<Rightarrow> dtype list \<Rightarrow> val list \<Rightarrow> val list \<Rightarrow> bool" where
  "keys_match lts rts as bs =
     list_all (\<lambda>(lt, rt, a, b). key_eq lt rt a b) (zip lts (zip rts (zip as bs)))"

definition pick :: "nat list \<Rightarrow> 'a list \<Rightarrow> 'a list" where
  "pick ixs xs = map (\<lambda>i. xs ! i) ixs"

text \<open>
  \<open>df.join(other, on=names, how="left")\<close>: on each side a name stands for the first
  column that has it. The result has the key columns (the left frame's), then the other
  columns of the left frame, then the other columns of the right frame. Every left row
  comes out once per matching right row, and once with nulls on the right when no right
  row matches. An empty \<open>on\<close> list makes \<open>join\<close> raise \<open>IndexError\<close>.
\<close>

definition join_left :: "frame \<Rightarrow> frame \<Rightarrow> string list \<Rightarrow> error + frame" where
  "join_left df other on =
     (if on = [] then Inl IndexError
      else
        (case sequence (map (first_position (columns df)) on) of
           Inl e \<Rightarrow> Inl e
         | Inr li \<Rightarrow>
             (case sequence (map (first_position (columns other)) on) of
                Inl e \<Rightarrow> Inl e
              | Inr ri \<Rightarrow>
                  (let lrest = filter (\<lambda>i. i \<notin> set li) [0..<length (schema df)];
                       rrest = filter (\<lambda>i. i \<notin> set ri) [0..<length (schema other)];
                       found = (\<lambda>a. filter
                         (\<lambda>b. keys_match (map snd (pick li (schema df)))
                                 (map snd (pick ri (schema other))) (pick li a) (pick ri b))
                         (rows other))
                   in Inr \<lparr>schema = pick li (schema df) @ pick lrest (schema df)
                                      @ pick rrest (schema other),
                           rows = concat (map (\<lambda>a.
                             if found a = []
                             then [pick li a @ pick lrest a @ replicate (length rrest) Null]
                             else map (\<lambda>b. pick li a @ pick lrest a @ pick rrest b) (found a))
                             (rows df))\<rparr>))))"

text \<open>
  \<open>df.drop(*names)\<close>: every column with one of the names (compared without regard to
  case) goes; a name no column has is ignored.
\<close>

definition drop_columns :: "string list \<Rightarrow> frame \<Rightarrow> frame" where
  "drop_columns names df =
     (let keep = filter (\<lambda>i. \<not> list_ex (same_name (fst (schema df ! i))) names)
                   [0..<length (schema df)]
      in \<lparr>schema = pick keep (schema df), rows = map (pick keep) (rows df)\<rparr>)"

text \<open>
  The loop over \<open>DIMENSION_ID_CONFIG.items()\<close>: the dimension table is read back from the
  store, its \<open>id\<close> becomes \<open>ID_<table>\<close>, the facts are left-joined to it on the natural-key
  fields, and the natural-key columns are dropped.
\<close>

fun join_dimensions :: "store \<Rightarrow> (string \<times> string list) list \<Rightarrow> frame \<Rightarrow> error + frame" where
  "join_dimensions db [] facts = Inr facts"
| "join_dimensions db ((table_name, table_fields) # id_config) facts =
     (case read_jdbc db table_name of
        Inl e \<Rightarrow> Inl e
      | Inr t \<Rightarrow>
          (case join_left facts (withColumnRenamed ''id'' (''ID_'' @ table_name) t) table_fields of
             Inl e \<Rightarrow> Inl e
           | Inr joined \<Rightarrow> join_dimensions db id_config (drop_columns table_fields joined)))"

subsection \<open>Loading the facts\<close>

text \<open>
  \<open>df.write.jdbc(table=name, mode="append")\<close> into a table that exists. The connector
  names the target of each column of the frame by the first column of the table that has
  its name, compared without regard to case; a column of the frame with no such target
  is an analysis error, two columns with one target are refused by the store.
\<close>

definition targets :: "table \<Rightarrow> frame \<Rightarrow> error + nat list" where
  "targets t df = sequence (map (first_position (map fst (tcolumns t))) (columns df))"

text \<open>
  The \<open>k\<close>-th row the store builds: a column that is a target takes the frame's value, a
  \<open>SERIAL\<close> column that is none takes the next value of the sequence, any other column
  is null.
\<close>

definition inserted_row :: "table \<Rightarrow> nat list \<Rightarrow> nat \<Rightarrow> val list \<Rightarrow> val list" where
  "inserted_row t tg k r =
     map (\<lambda>j. (case index_of tg j of
                  Some i \<Rightarrow> r ! i
                | None \<Rightarrow>
                    if snd (tcolumns t ! j) = SERIAL then IntV (next_serial t + int k)
                    else Null))
       [0..<length (tcolumns t)]"

text \<open>
  What the store accepts: a text column takes strings and a number column takes numbers
  (whatever the values, nulls included, once there is a row to insert), and a number
  must fit its column.
\<close>

definition accepts :: "sqltype \<Rightarrow> dtype \<Rightarrow> bool" where
  "accepts ty dt = ((ty = TEXT) = (dt = StringType))"

fun fits :: "sqltype \<Rightarrow> val \<Rightarrow> bool" where
  "fits INTEGER (IntV i) = in_int32 i"
| "fits SERIAL (IntV i) = in_int32 i"
| "fits BIGINT (IntV i) = in_int64 i"
| "fits ty v = True"

text \<open>The primary key of a table holds when its column has no null and no value twice.\<close>

definition key_holds :: "table \<Rightarrow> bool" where
  "key_holds t =
     (case primary_key t of
        None \<Rightarrow> True
      | Some pk \<Rightarrow>
          (case column_values t pk of
             None \<Rightarrow> False
           | Some vs \<Rightarrow> Null \<notin> set vs \<and> distinct vs))"

definition insert_rows :: "string \<Rightarrow> table \<Rightarrow> frame \<Rightarrow> store \<Rightarrow> error + store" where
  "insert_rows name t df db =
     (case targets t df of
        Inl e \<Rightarrow> Inl e
      | Inr tg \<Rightarrow>
          if rows df = [] then Inr db
          else if \<not> distinct tg then Inl (DuplicateColumn name)
          else if \<not> list_all (\<lambda>(j, dt). accepts (snd (tcolumns t ! j)) dt)
                     (zip tg (map snd (schema df)))
          then Inl (DatatypeMismatch name)
          else
            (let new = map (\<lambda>k. inserted_row t tg k (rows df ! k)) [0..<length (rows df)];
                 t' = t\<lparr>trows := trows t @ new,
                         next_serial := next_serial t + int (length (rows df))\<rparr>
             in if \<not> list_all (\<lambda>r. list_all2 fits (map snd (tcolumns t)) r) new
                then Inl (NumericValueOutOfRange name)
                else if \<not> key_holds t' then Inl (UniqueViolation name)
                else
                  (case filter (violated db t new) (foreign_keys t) of
                     fk # _ \<Rightarrow> Inl (ForeignKeyViolation (fst fk))
                   | [] \<Rightarrow> Inr (dict_set db (fold_identifier name) t'))))"

text \<open>
  When the store has no table of that name, the connector creates it from the frame,
  as it does when it overwrites.
\<close>

definition write_jdbc_append :: "string \<Rightarrow> frame \<Rightarrow> store \<Rightarrow> error + store" where
  "write_jdbc_append name df db =
     (case map_of db (fold_identifier name) of
        None \<Rightarrow>
          if \<not> distinct (map quoted_identifier (columns df)) \<or> \<not> distinct (map lower (columns df))
          then Inl (DuplicateColumn name)
          else Inr (dict_set db (fold_identifier name)
                 ((create_table (schema df))\<lparr>trows := rows df\<rparr>))
      | Some t \<Rightarrow> insert_rows name t df db)"

text \<open>
  The last cell: \<open>facts_data.select(*FACT_TABLE_ALL_COLUMNS_ORDERED).write.jdbc(table=
  FACT_TABLE_NAME, mode="append")\<close>. The store's state after a failed write is not
  modelled.
\<close>

definition write_facts :: "string \<Rightarrow> string list \<Rightarrow> frame \<Rightarrow> store \<Rightarrow> error + store" where
  "write_facts fact_table_name all_columns_ordered facts db =
     (case select all_columns_ordered facts of
        Inl e \<Rightarrow> Inl e
      | Inr df \<Rightarrow> write_jdbc_append fact_table_name df db)"

subsection \<open>Notions used to state the properties\<close>



subsection \<open>Example data\<close>

text \<open>
  Four schools of the census, used to run the cells on concrete rows: two schools of
  one municipality, and two schools of another whose \<open>TP_DEPENDENCIA\<close> is null.
\<close>

definition census_sample :: frame where
  "census_sample =
     \<lparr>schema =
       [(''NO_UF'', StringType), (''SG_UF'', StringType), (''CO_UF'', StringType),
       (''NO_MUNICIPIO'', StringType), (''CO_MUNICIPIO'', StringType),
       (''TP_DEPENDENCIA'', IntegerType), (''TP_LOCALIZACAO'', IntegerType),
       (''IN_AGUA_POTAVEL'', IntegerType), (''IN_ENERGIA_INEXISTENTE'', IntegerType),
       (''IN_ESGOTO_INEXISTENTE'', IntegerType), (''IN_BANHEIRO'', IntegerType),
       (''IN_BIBLIOTECA'', IntegerType), (''IN_REFEITORIO'', IntegerType),
       (''IN_COMPUTADOR'', IntegerType), (''IN_INTERNET'', IntegerType),
       (''IN_EQUIP_NENHUM'', IntegerType), (''QT_DOC_BAS'', IntegerType),
       (''QT_DOC_INF'', IntegerType), (''QT_DOC_FUND'', IntegerType),
       (''QT_DOC_MED'', IntegerType), (''QT_MAT_BAS'', IntegerType),
       (''QT_MAT_INF'', IntegerType), (''QT_MAT_FUND'', IntegerType),
       (''QT_MAT_MED'', IntegerType), (''QT_MAT_BAS_ND'', IntegerType),
       (''QT_MAT_BAS_BRANCA'', IntegerType), (''QT_MAT_BAS_PRETA'', IntegerType),
       (''QT_MAT_BAS_PARDA'', IntegerType), (''QT_MAT_BAS_AMARELA'', IntegerType),
       (''QT_MAT_BAS_INDIGENA'', IntegerType), (''NU_ANO_CENSO'', IntegerType)],
      rows =
       [[StrV ''Acre'', StrV ''AC'', StrV ''12'', StrV ''Rio Branco'', StrV ''1200401'', IntV 2,
         IntV 1, IntV 1, IntV 0, IntV 0, IntV 1, IntV 1, IntV 1, IntV 1, IntV 1, IntV 0,
         IntV 100, IntV 10, IntV 60, IntV 30, IntV 2000, IntV 200, IntV 1200, IntV 600,
         IntV 20, IntV 500, IntV 100, IntV 1300, IntV 30, IntV 50, IntV 2023],
        [StrV ''Acre'', StrV ''AC'', StrV ''12'', StrV ''Rio Branco'', StrV ''1200401'', IntV 3,
         IntV 2, IntV 1, IntV 0, IntV 0, IntV 1, IntV 0, IntV 1, IntV 1, IntV 0, IntV 0,
         IntV 50, IntV 5, IntV 30, IntV 15, IntV 900, IntV 90, IntV 500, IntV 310, IntV 9,
         IntV 200, IntV 50, IntV 600, IntV 11, IntV 30, IntV 2023],
        [StrV ''Acre'', StrV ''AC'', StrV ''12'', StrV ''Bujari'', StrV ''1200138'', Null, IntV 2,
         IntV 0, IntV 0, IntV 1, IntV 1, IntV 0, IntV 0, IntV 0, IntV 0, IntV 1, IntV 7,
         IntV 2, IntV 5, IntV 0, IntV 120, IntV 30, IntV 90, IntV 0, IntV 1, IntV 20,
         IntV 9, IntV 80, IntV 0, IntV 10, IntV 2023],
        [StrV ''Acre'', StrV ''AC'', StrV ''12'', StrV ''Bujari'', StrV ''1200138'', Null, IntV 1,
         IntV 1, IntV 0, IntV 1, IntV 1, IntV 0, IntV 1, IntV 0, IntV 0, IntV 1, IntV 4,
         IntV 1, IntV 3, IntV 0, IntV 60, IntV 15, IntV 45, IntV 0, IntV 0, IntV 10,
         IntV 5, IntV 40, IntV 0, IntV 5, IntV 2023]]\<rparr>"

text \<open>A partition assignment for the example: by the length of the row's first string.\<close>

definition sample_part :: "val list \<Rightarrow> nat" where
  "sample_part r = (case r of StrV s # _ \<Rightarrow> length s | IntV i # _ \<Rightarrow> nat i | _ \<Rightarrow> 0)"

text \<open>
  The dimension tables the materialization loop writes from \<open>census_sample\<close> into an
  empty store.
\<close>

definition sample_dimensions :: store where
  "sample_dimensions =
     [(''dim_local'', \<lparr>tcolumns = [(''NO_UF'', TEXT), (''SG_UF'', TEXT),
      (''CO_UF'', TEXT), (''NO_MUNICIPIO'', TEXT), (''CO_MUNICIPIO'', TEXT), (''id'',
      BIGINT)], trows = [[StrV ''Acre'', StrV ''AC'', StrV ''12'', StrV ''Rio Branco'',
      StrV ''1200401'', IntV 0], [StrV ''Acre'', StrV ''AC'', StrV ''12'', StrV
      ''Bujari'', StrV ''1200138'', IntV 1]], primary_key = Some ''id'', foreign_keys =
      [], next_serial = 1\<rparr>), (''dim_tp_dependencia'', \<lparr>tcolumns =
      [(''TP_DEPENDENCIA'', INTEGER), (''id'', BIGINT)], trows = [[Null, IntV 0], [IntV
      2, IntV 17179869184], [IntV 3, IntV 25769803776]], primary_key = Some ''id'',
      foreign_keys = [], next_serial = 1\<rparr>), (''dim_tp_localizacao'',
      \<lparr>tcolumns = [(''TP_LOCALIZACAO'', INTEGER), (''id'', BIGINT)], trows =
      [[IntV 1, IntV 8589934592], [IntV 2, IntV 17179869184]], primary_key = Some ''id'',
      foreign_keys = [], next_serial = 1\<rparr>), (''dim_in_agua_potavel'',
      \<lparr>tcolumns = [(''IN_AGUA_POTAVEL'', INTEGER), (''id'', BIGINT)], trows =
      [[IntV 0, IntV 0], [IntV 1, IntV 8589934592]], primary_key = Some ''id'',
      foreign_keys = [], next_serial = 1\<rparr>), (''dim_in_energia_inexistente'',
      \<lparr>tcolumns = [(''IN_ENERGIA_INEXISTENTE'', INTEGER), (''id'', BIGINT)], trows
      = [[IntV 0, IntV 0]], primary_key = Some ''id'', foreign_keys = [], next_serial =
      1\<rparr>), (''dim_in_esgoto_inexistente'', \<lparr>tcolumns =
      [(''IN_ESGOTO_INEXISTENTE'', INTEGER), (''id'', BIGINT)], trows = [[IntV 0, IntV
      0], [IntV 1, IntV 8589934592]], primary_key = Some ''id'', foreign_keys = [],
      next_serial = 1\<rparr>), (''dim_in_banheiro'', \<lparr>tcolumns =
      [(''IN_BANHEIRO'', INTEGER), (''id'', BIGINT)], trows = [[IntV 1, IntV
      8589934592]], primary_key = Some ''id'', foreign_keys = [], next_serial =
      1\<rparr>), (''dim_in_biblioteca'', \<lparr>tcolumns = [(''IN_BIBLIOTECA'',
      INTEGER), (''id'', BIGINT)], trows = [[IntV 0, IntV 0], [IntV 1, IntV 8589934592]],
      primary_key = Some ''id'', foreign_keys = [], next_serial = 1\<rparr>),
      (''dim_in_refeitorio'', \<lparr>tcolumns = [(''IN_REFEITORIO'', INTEGER), (''id'',
      BIGINT)], trows = [[IntV 0, IntV 0], [IntV 1, IntV 8589934592]], primary_key = Some
      ''id'', foreign_keys = [], next_serial = 1\<rparr>), (''dim_in_computador'',
      \<lparr>tcolumns = [(''IN_COMPUTADOR'', INTEGER), (''id'', BIGINT)], trows = [[IntV
      0, IntV 0], [IntV 1, IntV 8589934592]], primary_key = Some ''id'', foreign_keys =
      [], next_serial = 1\<rparr>), (''dim_in_internet'', \<lparr>tcolumns =
      [(''IN_INTERNET'', INTEGER), (''id'', BIGINT)], trows = [[IntV 0, IntV 0], [IntV 1,
      IntV 8589934592]], primary_key = Some ''id'', foreign_keys = [], next_serial =
      1\<rparr>), (''dim_in_equip_nenhum'', \<lparr>tcolumns = [(''IN_EQUIP_NENHUM'',
      INTEGER), (''id'', BIGINT)], trows = [[IntV 0, IntV 0], [IntV 1, IntV 8589934592]],
      primary_key = Some ''id'', foreign_keys = [], next_serial = 1\<rparr>)]"





text \<open>
  The fact table as the schema cell creates it in the store that holds the dimension
  tables of the example, and that store with it.
\<close>

definition sample_fact_table :: table where
  "sample_fact_table =
     \<lparr>tcolumns = [(''id'', SERIAL), (''qt_doc_bas'', INTEGER), (''qt_doc_inf'',
      INTEGER), (''qt_doc_fund'', INTEGER), (''qt_doc_med'', INTEGER), (''qt_mat_bas'',
      INTEGER), (''qt_mat_inf'', INTEGER), (''qt_mat_fund'', INTEGER), (''qt_mat_med'',
      INTEGER), (''qt_mat_bas_nd'', INTEGER), (''qt_mat_bas_branca'', INTEGER),
      (''qt_mat_bas_preta'', INTEGER), (''qt_mat_bas_parda'', INTEGER),
      (''qt_mat_bas_amarela'', INTEGER), (''qt_mat_bas_indigena'', INTEGER),
      (''nu_ano_censo'', INTEGER), (''id_dim_local'', BIGINT),
      (''id_dim_tp_dependencia'', BIGINT), (''id_dim_tp_localizacao'', BIGINT),
      (''id_dim_in_agua_potavel'', BIGINT), (''id_dim_in_energia_inexistente'', BIGINT),
      (''id_dim_in_esgoto_inexistente'', BIGINT), (''id_dim_in_banheiro'', BIGINT),
      (''id_dim_in_biblioteca'', BIGINT), (''id_dim_in_refeitorio'', BIGINT),
      (''id_dim_in_computador'', BIGINT), (''id_dim_in_internet'', BIGINT),
      (''id_dim_in_equip_nenhum'', BIGINT)], trows = [], primary_key = Some ''id'',
      foreign_keys = [(''fact_censo_escolar_dim_local_fk'', ''id_dim_local'',
      ''dim_local''), (''fact_censo_escolar_dim_tp_dependencia_fk'',
      ''id_dim_tp_dependencia'', ''dim_tp_dependencia''),
      (''fact_censo_escolar_dim_tp_localizacao_fk'', ''id_dim_tp_localizacao'',
      ''dim_tp_localizacao''), (''fact_censo_escolar_dim_in_agua_potavel_fk'',
      ''id_dim_in_agua_potavel'', ''dim_in_agua_potavel''),
      (''fact_censo_escolar_dim_in_energia_inexistente_fk'',
      ''id_dim_in_energia_inexistente'', ''dim_in_energia_inexistente''),
      (''fact_censo_escolar_dim_in_esgoto_inexistente_fk'',
      ''id_dim_in_esgoto_inexistente'', ''dim_in_esgoto_inexistente''),
      (''fact_censo_escolar_dim_in_banheiro_fk'', ''id_dim_in_banheiro'',
      ''dim_in_banheiro''), (''fact_censo_escolar_dim_in_biblioteca_fk'',
      ''id_dim_in_biblioteca'', ''dim_in_biblioteca''),
      (''fact_censo_escolar_dim_in_refeitorio_fk'', ''id_dim_in_refeitorio'',
      ''dim_in_refeitorio''), (''fact_censo_escolar_dim_in_computador_fk'',
      ''id_dim_in_computador'', ''dim_in_computador''),
      (''fact_censo_escolar_dim_in_internet_fk'', ''id_dim_in_internet'',
      ''dim_in_internet''), (''fact_censo_escolar_dim_in_equip_nenhum_fk'',
      ''id_dim_in_equip_nenhum'', ''dim_in_equip_nenhum'')], next_serial = 1\<rparr>"

definition sample_schema :: store where
  "sample_schema = sample_dimensions @ [(''fact_censo_escolar'', sample_fact_table)]"

text \<open>
  Connections for the example: one that holds all the dimension tables, one that lacks
  the table of one dimension, and the first one after the schema cell has run.
\<close>

definition sample_connection :: connection where
  "sample_connection = \<lparr>committed = sample_dimensions, session = sample_dimensions\<rparr>"

definition incomplete_connection :: connection where
  "incomplete_connection =
     \<lparr>committed = drop_table sample_dimensions ''dim_in_internet'',
      session = drop_table sample_dimensions ''dim_in_internet''\<rparr>"

definition built_connection :: connection where
  "built_connection = \<lparr>committed = sample_schema, session = sample_schema\<rparr>"

text \<open>The fact rows of the example before the join loop.\<close>

definition sample_facts :: frame where
  "sample_facts =
     \<lparr>schema = [(''NO_UF'', StringType), (''SG_UF'', StringType), (''CO_UF'',
      StringType), (''NO_MUNICIPIO'', StringType), (''CO_MUNICIPIO'', StringType),
      (''TP_DEPENDENCIA'', IntegerType), (''TP_LOCALIZACAO'', IntegerType),
      (''IN_AGUA_POTAVEL'', IntegerType), (''IN_ENERGIA_INEXISTENTE'', IntegerType),
      (''IN_ESGOTO_INEXISTENTE'', IntegerType), (''IN_BANHEIRO'', IntegerType),
      (''IN_BIBLIOTECA'', IntegerType), (''IN_REFEITORIO'', IntegerType),
      (''IN_COMPUTADOR'', IntegerType), (''IN_INTERNET'', IntegerType),
      (''IN_EQUIP_NENHUM'', IntegerType), (''QT_DOC_BAS'', IntegerType), (''QT_DOC_INF'',
      IntegerType), (''QT_DOC_FUND'', IntegerType), (''QT_DOC_MED'', IntegerType),
      (''QT_MAT_BAS'', IntegerType), (''QT_MAT_INF'', IntegerType), (''QT_MAT_FUND'',
      IntegerType), (''QT_MAT_MED'', IntegerType), (''QT_MAT_BAS_ND'', IntegerType),
      (''QT_MAT_BAS_BRANCA'', IntegerType), (''QT_MAT_BAS_PRETA'', IntegerType),
      (''QT_MAT_BAS_PARDA'', IntegerType), (''QT_MAT_BAS_AMARELA'', IntegerType),
      (''QT_MAT_BAS_INDIGENA'', IntegerType), (''NU_ANO_CENSO'', IntegerType)], rows =
      [[StrV ''Acre'', StrV ''AC'', StrV ''12'', StrV ''Rio Branco'', StrV ''1200401'',
      IntV 2, IntV 1, IntV 1, IntV 0, IntV 0, IntV 1, IntV 1, IntV 1, IntV 1, IntV 1,
      IntV 0, IntV 100, IntV 10, IntV 60, IntV 30, IntV 2000, IntV 200, IntV 1200, IntV
      600, IntV 20, IntV 500, IntV 100, IntV 1300, IntV 30, IntV 50, IntV 2023], [StrV
      ''Acre'', StrV ''AC'', StrV ''12'', StrV ''Rio Branco'', StrV ''1200401'', IntV 3,
      IntV 2, IntV 1, IntV 0, IntV 0, IntV 1, IntV 0, IntV 1, IntV 1, IntV 0, IntV 0,
      IntV 50, IntV 5, IntV 30, IntV 15, IntV 900, IntV 90, IntV 500, IntV 310, IntV 9,
      IntV 200, IntV 50, IntV 600, IntV 11, IntV 30, IntV 2023], [StrV ''Acre'', StrV
      ''AC'', StrV ''12'', StrV ''Bujari'', StrV ''1200138'', Null, IntV 2, IntV 0, IntV
      0, IntV 1, IntV 1, IntV 0, IntV 0, IntV 0, IntV 0, IntV 1, IntV 7, IntV 2, IntV 5,
      IntV 0, IntV 120, IntV 30, IntV 90, IntV 0, IntV 1, IntV 20, IntV 9, IntV 80, IntV
      0, IntV 10, IntV 2023], [StrV ''Acre'', StrV ''AC'', StrV ''12'', StrV ''Bujari'',
      StrV ''1200138'', Null, IntV 1, IntV 1, IntV 0, IntV 1, IntV 1, IntV 0, IntV 1,
      IntV 0, IntV 0, IntV 1, IntV 4, IntV 1, IntV 3, IntV 0, IntV 60, IntV 15, IntV 45,
      IntV 0, IntV 0, IntV 10, IntV 5, IntV 40, IntV 0, IntV 5, IntV 2023]]\<rparr>"


section \<open>Properties\<close>

subsection \<open>Dictionaries\<close>

lemma keys_dict_set:
  "map fst (dict_set d k v) = (if k \<in> set (map fst d) then map fst d else map fst d @ [k])"
proof (induction d)
  case Nil
  show ?case by simp
next
  case (Cons p d)
  obtain k' v' where p: "p = (k', v')" by (cases p)
  show ?case using Cons by (cases "k' = k") (simp_all add: p)
qed

lemma set_keys_dict_set: "set (map fst (dict_set d k v)) = insert k (set (map fst d))"
  by (auto simp: keys_dict_set)

lemma distinct_dict_set:
  "distinct (map fst d) \<Longrightarrow> distinct (map fst (dict_set d k v))"
  by (simp add: keys_dict_set)

lemma map_of_dict_set: "map_of (dict_set d k v) = (map_of d)(k \<mapsto> v)"
  by (induction d) (auto simp: fun_eq_iff)

lemma distinct_dict_update:
  "distinct (map fst d) \<Longrightarrow> distinct (map fst (dict_update d other))"
  unfolding dict_update_def
  by (induction other arbitrary: d) (simp_all add: distinct_dict_set)

lemma map_of_dict_update:
  "map_of (dict_update d other) = map_of d ++ map_of (rev other)"
  unfolding dict_update_def
proof (induction other arbitrary: d)
  case Nil
  show ?case by simp
next
  case (Cons kv other)
  have "map_of (rev other @ [kv]) = [fst kv \<mapsto> snd kv] ++ map_of (rev other)"
    by (cases kv) (simp add: map_of_append)
  then show ?case
    using Cons.IH [of "dict_set d (fst kv) (snd kv)"]
    by (simp add: map_of_dict_set map_add_upd_left fun_eq_iff map_add_def split: option.splits)
qed

lemma set_keys_dict_update:
  "set (map fst (dict_update d other)) = set (map fst d) \<union> set (map fst other)"
  unfolding dict_update_def
proof (induction other arbitrary: d)
  case Nil
  show ?case by simp
next
  case (Cons kv other)
  show ?case
    using Cons [of "dict_set d (fst kv) (snd kv)"] set_keys_dict_set [of d "fst kv" "snd kv"]
    by auto
qed

lemma distinct_dict_of: "distinct (map fst (dict_of its))"
  by (simp add: dict_of_def distinct_dict_update)

lemma map_of_dict_of: "map_of (dict_of its) = map_of (rev its)"
  by (simp add: dict_of_def map_of_dict_update)

subsection \<open>The registry\<close>

lemma distinct_map_of_rev_keys: "distinct (map fst xs) \<Longrightarrow> map_of (rev xs) = map_of xs"
proof (induction xs)
  case Nil
  show ?case by simp
next
  case (Cons p xs)
  obtain k v where p: "p = (k, v)" by (cases p)
  from Cons.prems have "map_of xs k = None"
    by (simp add: p map_of_eq_None_iff)
  then show ?case using Cons
    by (auto simp: p fun_eq_iff map_add_def split: option.splits)
qed

lemma map_of_registry:
  "map_of (dimension_tables_config config dimensions) =
     map_of config ++ map_of (rev (map integer_dimension dimensions))"
  by (simp add: dimension_tables_config_def map_of_dict_update distinct_map_of_rev_keys
      distinct_dict_of map_of_dict_of)

text \<open>
  C6, as the code has it. Building the registry never fails: for every hand-written dict
  and every list of flag columns the update returns a registry. Its names are pairwise
  distinct, they are the hand-written names together with the synthesized names
  \<open>"DIM_" + column.upper()\<close>, and a synthesized name that is already present replaces
  the spec stored under that name: the last entry written for a name is the one looked up.
\<close>

theorem registry_merge_never_fails:
  assumes "distinct (dict_keys config)"
  shows "\<exists>registry. update_dimension_tables_config config dimensions = Inr registry
           \<and> distinct (dict_keys registry)
           \<and> set (dict_keys registry) =
               set (dict_keys config) \<union> (\<lambda>d. ''DIM_'' @ upper d) ` set dimensions
           \<and> map_of registry = map_of config ++ map_of (rev (map integer_dimension dimensions))"
proof -
  let ?syn = "dict_of (map integer_dimension dimensions)"
  have "set (map fst ?syn) = set (map fst (map integer_dimension dimensions))"
    unfolding dict_of_def set_keys_dict_update by simp
  also have "\<dots> = (\<lambda>d. ''DIM_'' @ upper d) ` set dimensions"
    by (simp add: integer_dimension_def image_image)
  finally have syn: "set (map fst ?syn) = (\<lambda>d. ''DIM_'' @ upper d) ` set dimensions" .
  have keys: "set (map fst (dict_update config ?syn)) =
      set (map fst config) \<union> (\<lambda>d. ''DIM_'' @ upper d) ` set dimensions"
    unfolding set_keys_dict_update syn ..
  have dist: "distinct (map fst (dict_update config ?syn))"
    using assms by (simp only: dict_keys_def distinct_dict_update)
  show ?thesis
    unfolding update_dimension_tables_config_def dict_keys_def
    using keys dist map_of_registry [of config dimensions, unfolded dimension_tables_config_def]
    by blast
qed

text \<open>
  C6, as stated, fails: the flag column \<open>local\<close> synthesizes the name \<open>DIM_LOCAL\<close> of
  the hand-written spec, and the update returns a registry (no configuration error) in
  which the hand-written five-field spec has been replaced by the synthesized one.
\<close>

theorem registry_collision_replaces_hand_written:
  "fst (integer_dimension ''local'') \<in> set (dict_keys HAND_WRITTEN_CONFIG)
   \<and> update_dimension_tables_config HAND_WRITTEN_CONFIG [''local''] =
       Inr [(''DIM_LOCAL'', [\<lparr>field = ''local'', type = ''integer''\<rparr>])]"
  by (simp add: update_dimension_tables_config_def HAND_WRITTEN_CONFIG_def dict_of_def
      dict_update_def integer_dimension_def upper_def upper_char_def dict_keys_def)

lemma DIMENSION_TABLES_CONFIG_eq:
  "DIMENSION_TABLES_CONFIG = 
    [(''DIM_LOCAL'',
       [\<lparr>field = ''NO_UF'', type = ''string''\<rparr>,
        \<lparr>field = ''SG_UF'', type = ''string''\<rparr>,
        \<lparr>field = ''CO_UF'', type = ''string''\<rparr>,
        \<lparr>field = ''NO_MUNICIPIO'', type = ''string''\<rparr>,
        \<lparr>field = ''CO_MUNICIPIO'', type = ''string''\<rparr>]),
     (''DIM_TP_DEPENDENCIA'', [\<lparr>field = ''TP_DEPENDENCIA'', type = ''integer''\<rparr>]),
     (''DIM_TP_LOCALIZACAO'', [\<lparr>field = ''TP_LOCALIZACAO'', type = ''integer''\<rparr>]),
     (''DIM_IN_AGUA_POTAVEL'', [\<lparr>field = ''IN_AGUA_POTAVEL'', type = ''integer''\<rparr>]),
     (''DIM_IN_ENERGIA_INEXISTENTE'', [\<lparr>field = ''IN_ENERGIA_INEXISTENTE'', type = ''integer''\<rparr>]),
     (''DIM_IN_ESGOTO_INEXISTENTE'', [\<lparr>field = ''IN_ESGOTO_INEXISTENTE'', type = ''integer''\<rparr>]),
     (''DIM_IN_BANHEIRO'', [\<lparr>field = ''IN_BANHEIRO'', type = ''integer''\<rparr>]),
     (''DIM_IN_BIBLIOTECA'', [\<lparr>field = ''IN_BIBLIOTECA'', type = ''integer''\<rparr>]),
     (''DIM_IN_REFEITORIO'', [\<lparr>field = ''IN_REFEITORIO'', type = ''integer''\<rparr>]),
     (''DIM_IN_COMPUTADOR'', [\<lparr>field = ''IN_COMPUTADOR'', type = ''integer''\<rparr>]),
     (''DIM_IN_INTERNET'', [\<lparr>field = ''IN_INTERNET'', type = ''integer''\<rparr>]),
     (''DIM_IN_EQUIP_NENHUM'', [\<lparr>field = ''IN_EQUIP_NENHUM'', type = ''integer''\<rparr>])]"
  by code_simp

theorem registry_merge_never_fails_witness:
  "distinct (dict_keys HAND_WRITTEN_CONFIG)
   \<and> (\<exists>registry. update_dimension_tables_config HAND_WRITTEN_CONFIG [''local''] = Inr registry
           \<and> distinct (dict_keys registry)
           \<and> set (dict_keys registry) =
               set (dict_keys HAND_WRITTEN_CONFIG) \<union> (\<lambda>d. ''DIM_'' @ upper d) ` set [''local'']
           \<and> map_of registry =
               map_of HAND_WRITTEN_CONFIG ++ map_of (rev (map integer_dimension [''local''])))"
proof -
  have d: "distinct (dict_keys HAND_WRITTEN_CONFIG)"
    by (simp add: HAND_WRITTEN_CONFIG_def dict_keys_def distinct_dict_of)
  show ?thesis
    using d registry_merge_never_fails [OF d, of "[''local'']"] by simp
qed

subsection \<open>Evaluating names\<close>

text \<open>
  The upper-case letters are the character codes 65 to 90; the lower-case letter of each
  is 32 further. This equation replaces the table look-up when names are evaluated.
\<close>

lemma lower_char_code [code]:
  "lower_char (Char b0 b1 b2 b3 b4 b5 b6 b7) =
     (if b6 \<and> \<not> b5 \<and> \<not> b7 \<and> (b0 \<or> b1 \<or> b2 \<or> b3 \<or> b4) \<and> \<not> (b4 \<and> b3 \<and> (b2 \<or> b1 \<and> b0))
      then Char b0 b1 b2 b3 b4 True b6 b7 else Char b0 b1 b2 b3 b4 b5 b6 b7)"
  by (cases b0; cases b1; cases b2; cases b3; cases b4; cases b5; cases b6; cases b7)
     (simp_all add: lower_char_def)

subsection \<open>Results and column resolution\<close>

lemma sequence_map_Inr: "sequence (map Inr ys) = Inr ys"
  by (induction ys) simp_all

lemma sequence_Inr: "sequence xs = Inr ys \<Longrightarrow> xs = map Inr ys"
proof (induction xs arbitrary: ys)
  case Nil
  then show ?case by simp
next
  case (Cons x xs)
  from Cons.prems obtain a as where x: "x = Inr a" and s: "sequence xs = Inr as" and ys: "ys = a # as"
    by (auto split: sum.splits)
  from Cons.IH [OF s] show ?case by (simp add: x ys)
qed

lemma sequence_length: "sequence xs = Inr ys \<Longrightarrow> length ys = length xs"
  by (drule sequence_Inr) simp

lemma sequence_nth: "sequence xs = Inr ys \<Longrightarrow> i < length xs \<Longrightarrow> xs ! i = Inr (ys ! i)"
  by (drule sequence_Inr) simp

subsection \<open>Dimension frames\<close>

lemma select_cast_Inr:
  assumes "select_cast table_fields data = Inr df"
  obtains types ixs where
    "sequence (map (\<lambda>fd. parse_type (type fd)) table_fields) = Inr types"
    "sequence (map (\<lambda>fd. resolve (columns data) (field fd)) table_fields) = Inr ixs"
    "length types = length table_fields" "length ixs = length table_fields"
    "df = \<lparr>schema = zip (map field table_fields) types,
           rows = map (\<lambda>r. map (\<lambda>(i, t). cast t (r ! i)) (zip ixs types)) (rows data)\<rparr>"
proof -
  from assms obtain types ixs where
    t: "sequence (map (\<lambda>fd. parse_type (type fd)) table_fields) = Inr types" and
    i: "sequence (map (\<lambda>fd. resolve (columns data) (field fd)) table_fields) = Inr ixs" and
    df: "df = \<lparr>schema = zip (map field table_fields) types,
               rows = map (\<lambda>r. map (\<lambda>(i, t). cast t (r ! i)) (zip ixs types)) (rows data)\<rparr>"
    by (auto simp: select_cast_def split: sum.splits)
  have "length types = length table_fields" using sequence_length [OF t] by simp
  moreover have "length ixs = length table_fields" using sequence_length [OF i] by simp
  ultimately show thesis using t i df that by blast
qed

lemma select_cast_columns:
  assumes "select_cast table_fields data = Inr df"
  shows "columns df = map field table_fields"
  using assms by (elim select_cast_Inr) (simp add: columns_def)

lemma select_cast_row_length:
  assumes "select_cast table_fields data = Inr df" and "r \<in> set (rows df)"
  shows "length r = length table_fields"
  using assms by (elim select_cast_Inr) auto


lemma distinct_concat_partitions:
  assumes "distinct rs"
  shows "distinct (concat (map (\<lambda>p. filter (\<lambda>r. h r = p) rs) [0..<k]))"
proof (induction k)
  case 0
  show ?case by simp
next
  case (Suc k)
  have "set (concat (map (\<lambda>p. filter (\<lambda>r. h r = p) rs) [0..<k])) \<inter> set (filter (\<lambda>r. h r = k) rs) = {}"
    by auto
  with Suc assms show ?case by simp
qed

lemma distinct_distinct_partitions: "distinct (concat (distinct_partitions part rs))"
  unfolding distinct_partitions_def
  by (rule distinct_concat_partitions) simp

lemma set_concat_partitions:
  "0 < k \<Longrightarrow> set (concat (map (\<lambda>p. filter (\<lambda>r. h r mod k = p) rs) [0..<k])) = set rs"
  by auto

lemma set_distinct_partitions: "set (concat (distinct_partitions part rs)) = set rs"
proof -
  have "set (concat (distinct_partitions part rs)) = set (remdups rs)"
    unfolding distinct_partitions_def
    by (rule set_concat_partitions) (simp add: shuffle_partitions_def)
  then show ?thesis by simp
qed


lemma length_partition_ids: "length (partition_ids parts) = length (concat parts)"
proof -
  have "map length parts = map (\<lambda>p. length (parts ! p)) [0..<length parts]"
    by (rule nth_equalityI) simp_all
  then show ?thesis
    by (simp add: partition_ids_def length_concat comp_def)
qed

subsection \<open>Surrogate keys\<close>






subsection \<open>The dimension frame\<close>

lemma append_column_take:
  assumes "length xs = length vs" and "\<forall>r\<in>set xs. length r = n"
  shows "map (take n) (map (\<lambda>(r, v). r @ [v]) (zip xs vs)) = xs"
  using assms by (induction xs vs rule: list_induct2) simp_all

lemma append_column_nth:
  assumes "length xs = length vs" and "\<forall>r\<in>set xs. length r = n"
  shows "map (\<lambda>r. r ! n) (map (\<lambda>(r, v). r @ [v]) (zip xs vs)) = vs"
  using assms by (induction xs vs rule: list_induct2) (auto simp: nth_append)


lemma dimension_frame_Inr:
  assumes "dimension_frame part data table_fields = Inr df"
    and "\<forall>fd\<in>set table_fields. \<not> same_name (field fd) ''id''"
  obtains sc where
    "select_cast table_fields data = Inr sc"
    "schema df = schema sc @ [(''id'', LongType)]"
    "rows df = map (\<lambda>(r, v). r @ [v])
       (zip (concat (distinct_partitions part (rows sc)))
            (map IntV (partition_ids (distinct_partitions part (rows sc)))))"
proof -
  from assms(1) obtain sc where sc: "select_cast table_fields data = Inr sc"
    and df: "df = withColumn ''id'' LongType
        (map IntV (partition_ids (distinct_partitions part (rows sc))))
        \<lparr>schema = schema sc, rows = concat (distinct_partitions part (rows sc))\<rparr>"
    by (auto simp: dimension_frame_def Let_def split: sum.splits)
  have "\<not> list_ex (\<lambda>c. same_name c ''id'') (columns \<lparr>schema = schema sc,
      rows = concat (distinct_partitions part (rows sc))\<rparr>)"
    using assms(2) select_cast_columns [OF sc] by (simp add: columns_def list_ex_iff)
  then show thesis using sc df that by (simp add: withColumn_def)
qed

lemma dimension_frame_keys:
  assumes "dimension_frame part data table_fields = Inr df"
    and "\<forall>fd\<in>set table_fields. \<not> same_name (field fd) ''id''"
    and "select_cast table_fields data = Inr sc"
  shows "map (take (length table_fields)) (rows df) = concat (distinct_partitions part (rows sc))"
    and "map (\<lambda>r. r ! length table_fields) (rows df) =
           map IntV (partition_ids (distinct_partitions part (rows sc)))"
proof -
  let ?parts = "distinct_partitions part (rows sc)"
  have len: "length (concat ?parts) = length (map IntV (partition_ids ?parts))"
    by (simp add: length_partition_ids)
  have rl: "\<forall>r\<in>set (concat ?parts). length r = length table_fields"
    using select_cast_row_length [OF assms(3)] by (simp only: set_distinct_partitions) blast
  from assms(1,2) obtain sc' where sc': "select_cast table_fields data = Inr sc'"
    and r: "rows df = map (\<lambda>(r, v). r @ [v])
       (zip (concat (distinct_partitions part (rows sc')))
            (map IntV (partition_ids (distinct_partitions part (rows sc')))))"
    by (rule dimension_frame_Inr)
  from sc' assms(3) have "sc' = sc" by simp
  with r have rows: "rows df = map (\<lambda>(r, v). r @ [v]) (zip (concat ?parts) (map IntV (partition_ids ?parts)))"
    by simp
  show "map (take (length table_fields)) (rows df) = concat ?parts"
    unfolding rows by (rule append_column_take [OF len rl])
  show "map (\<lambda>r. r ! length table_fields) (rows df) = map IntV (partition_ids ?parts)"
    unfolding rows by (rule append_column_nth [OF len rl])
qed

lemma dimension_frame_columns:
  assumes "dimension_frame part data table_fields = Inr df"
    and "\<forall>fd\<in>set table_fields. \<not> same_name (field fd) ''id''"
  shows "columns df = map field table_fields @ [''id'']"
proof -
  from assms obtain sc where sc: "select_cast table_fields data = Inr sc"
    and s: "schema df = schema sc @ [(''id'', LongType)]"
    by (rule dimension_frame_Inr)
  show ?thesis using select_cast_columns [OF sc] by (simp add: columns_def s)
qed

lemma dimension_frame_row_length:
  assumes "dimension_frame part data table_fields = Inr df"
    and "\<forall>fd\<in>set table_fields. \<not> same_name (field fd) ''id''"
    and "r \<in> set (rows df)"
  shows "length r = Suc (length table_fields)"
proof -
  from assms(1,2) obtain sc where sc: "select_cast table_fields data = Inr sc"
    and r: "rows df = map (\<lambda>(r, v). r @ [v])
       (zip (concat (distinct_partitions part (rows sc)))
            (map IntV (partition_ids (distinct_partitions part (rows sc)))))"
    by (rule dimension_frame_Inr)
  from assms(3) obtain a v where "r = a @ [v]" and "a \<in> set (concat (distinct_partitions part (rows sc)))"
    unfolding r by (auto dest: set_zip_leftD)
  moreover have "a \<in> set (rows sc)" using calculation(2) by (simp only: set_distinct_partitions)
  ultimately show ?thesis using select_cast_row_length [OF sc] by simp
qed

subsection \<open>Writing a dimension table\<close>

lemma fold_identifier_id: "fold_identifier ''id'' = ''id''"
  by (simp add: fold_identifier_def lower_def lower_char_def)

lemma quoted_identifier_id: "quoted_identifier f = ''id'' \<Longrightarrow> f = ''id''"
proof -
  assume a: "quoted_identifier f = ''id''"
  then have "length (take 63 f) = 2" by (simp add: quoted_identifier_def)
  then have "length f = 2" by (simp add: min_def split: if_splits)
  with a show ?thesis by (simp add: quoted_identifier_def)
qed

lemma index_of_append:
  "x \<notin> set xs \<Longrightarrow> index_of (xs @ [x]) x = Some (length xs)"
  by (induction xs) auto

lemma write_jdbc_overwrite_None:
  assumes "write_jdbc_overwrite name df db = (db1, None)"
  shows "db1 = dict_set db (fold_identifier name) ((create_table (schema df))\<lparr>trows := rows df\<rparr>)"
    and "distinct (map lower (columns df))"
    and "distinct (map quoted_identifier (columns df))"
  using assms by (auto simp: write_jdbc_overwrite_def split: if_splits)

lemma add_primary_key_Inr:
  assumes "add_primary_key name col db1 = Inr db2"
  obtains t vs where "map_of db1 (fold_identifier name) = Some t"
    "column_values t (fold_identifier col) = Some vs" "distinct vs" "Null \<notin> set vs"
    "db2 = dict_set db1 (fold_identifier name) (t\<lparr>primary_key := Some (fold_identifier col)\<rparr>)"
proof -
  from assms obtain t where t: "map_of db1 (fold_identifier name) = Some t"
    by (auto simp: add_primary_key_def split: option.splits)
  from assms t obtain vs where vs: "column_values t (fold_identifier col) = Some vs"
    by (auto simp: add_primary_key_def split: option.splits)
  from assms t vs have d: "distinct (filter (\<lambda>v. v \<noteq> Null) vs)" and n: "Null \<notin> set vs"
    and db2: "db2 = dict_set db1 (fold_identifier name) (t\<lparr>primary_key := Some (fold_identifier col)\<rparr>)"
    by (auto simp: add_primary_key_def split: if_splits)
  from n have "filter (\<lambda>v. v \<noteq> Null) vs = vs" by (induction vs) auto
  with d have "distinct vs" by simp
  with t vs n db2 show thesis using that by blast
qed


lemma map_of_drop_table: "n \<noteq> name \<Longrightarrow> map_of (drop_table db name) n = map_of db n"
  unfolding drop_table_def by (induction db) auto

lemma write_jdbc_overwrite_other:
  assumes "write_jdbc_overwrite name df db = (db1, e)" and "n \<noteq> fold_identifier name"
  shows "map_of db1 n = map_of db n"
  using assms
  by (auto simp: write_jdbc_overwrite_def map_of_dict_set map_of_drop_table split: if_splits)

lemma add_primary_key_other:
  assumes "add_primary_key name col db1 = Inr db2" and "n \<noteq> fold_identifier name"
  shows "map_of db2 n = map_of db1 n"
  using assms(1)
  by (rule add_primary_key_Inr) (simp add: map_of_dict_set assms(2))

lemma write_dimensions_other:
  assumes "write_dimensions part data config db = (db', err)"
    and "n \<notin> set (map (fold_identifier \<circ> fst) config)"
  shows "map_of db' n = map_of db n"
  using assms
proof (induction config arbitrary: db)
  case Nil
  then show ?case by simp
next
  case (Cons c config)
  obtain name fs where c: "c = (name, fs)" by (cases c)
  from Cons.prems(2) have n: "n \<noteq> fold_identifier name"
    and rest: "n \<notin> set (map (fold_identifier \<circ> fst) config)"
    by (simp_all add: c)
  show ?case
  proof (cases "dimension_frame part data fs")
    case (Inl e)
    with Cons.prems(1) show ?thesis by (simp add: c)
  next
    case (Inr df)
    obtain db1 e1 where w: "write_jdbc_overwrite name df db = (db1, e1)"
      by (cases "write_jdbc_overwrite name df db")
    have db1: "map_of db1 n = map_of db n" by (rule write_jdbc_overwrite_other [OF w n])
    show ?thesis
    proof (cases e1)
      case (Some e)
      with Cons.prems(1) Inr w db1 show ?thesis by (simp add: c)
    next
      case None
      show ?thesis
      proof (cases "add_primary_key name ''id'' db1")
        case (Inl e)
        with Cons.prems(1) Inr w None db1 show ?thesis by (simp add: c)
      next
        case (Inr db2)
        have db2: "map_of db2 n = map_of db1 n" by (rule add_primary_key_other [OF Inr n])
        from Cons.prems(1) \<open>dimension_frame part data fs = Inr df\<close> w None Inr
        have "write_dimensions part data config db2 = (db', err)" by (simp add: c)
        from Cons.IH [OF this rest] db2 db1 show ?thesis by simp
      qed
    qed
  qed
qed

lemma write_dimensions_table:
  assumes "write_dimensions part data config db0 = (db, None)"
    and "distinct (map (fold_identifier \<circ> fst) config)"
    and "(table_name, table_fields) \<in> set config"
  shows "\<exists>df vs. dimension_frame part data table_fields = Inr df
           \<and> distinct (map lower (columns df))
           \<and> distinct (map quoted_identifier (columns df))
           \<and> column_values ((create_table (schema df))\<lparr>trows := rows df\<rparr>) ''id'' = Some vs
           \<and> distinct vs \<and> Null \<notin> set vs
           \<and> map_of db (fold_identifier table_name)
               = Some ((create_table (schema df))\<lparr>trows := rows df, primary_key := Some ''id''\<rparr>)"
  using assms
proof (induction config arbitrary: db0)
  case Nil
  then show ?case by simp
next
  case (Cons c config)
  obtain name fs where c: "c = (name, fs)" by (cases c)
  from Cons.prems(1) obtain df where df: "dimension_frame part data fs = Inr df"
    by (cases "dimension_frame part data fs") (simp_all add: c)
  obtain db1 e1 where w: "write_jdbc_overwrite name df db0 = (db1, e1)"
    by (cases "write_jdbc_overwrite name df db0")
  from Cons.prems(1) df w have e1: "e1 = None" by (cases e1) (simp_all add: c)
  from Cons.prems(1) df w e1 obtain db2 where pk: "add_primary_key name ''id'' db1 = Inr db2"
    by (cases "add_primary_key name ''id'' db1") (simp_all add: c)
  from Cons.prems(1) df w e1 pk have rest: "write_dimensions part data config db2 = (db, None)"
    by (simp add: c)
  from Cons.prems(2) have fresh: "fold_identifier name \<notin> set (map (fold_identifier \<circ> fst) config)"
    and dist: "distinct (map (fold_identifier \<circ> fst) config)"
    by (simp_all add: c comp_def)
  show ?case
  proof (cases "(table_name, table_fields) = (name, fs)")
    case True
    let ?t = "(create_table (schema df))\<lparr>trows := rows df\<rparr>"
    note wn = write_jdbc_overwrite_None [OF w [unfolded e1]]
    have t1: "map_of db1 (fold_identifier name) = Some ?t"
      by (simp add: wn(1) map_of_dict_set)
    from pk obtain t vs where t: "map_of db1 (fold_identifier name) = Some t"
      and vs: "column_values t (fold_identifier ''id'') = Some vs"
      and d: "distinct vs" and nn: "Null \<notin> set vs"
      and db2: "db2 = dict_set db1 (fold_identifier name) (t\<lparr>primary_key := Some (fold_identifier ''id'')\<rparr>)"
      by (rule add_primary_key_Inr)
    from t t1 have tt: "t = ?t" by simp
    have "map_of db (fold_identifier name) = map_of db2 (fold_identifier name)"
      by (rule write_dimensions_other [OF rest fresh])
    also have "\<dots> = Some (?t\<lparr>primary_key := Some ''id''\<rparr>)"
      by (simp add: db2 map_of_dict_set tt fold_identifier_id)
    finally have m: "map_of db (fold_identifier name)
        = Some ((create_table (schema df))\<lparr>trows := rows df, primary_key := Some ''id''\<rparr>)"
      by simp
    from vs have vs': "column_values ?t ''id'' = Some vs" by (simp add: tt fold_identifier_id)
    from True df wn(2,3) vs' d nn m show ?thesis by auto
  next
    case False
    with Cons.prems(3) have "(table_name, table_fields) \<in> set config" by (auto simp: c)
    from Cons.IH [OF rest dist this] show ?thesis .
  qed
qed

lemma tcolumns_create_table:
  "map fst (tcolumns (create_table sch)) = map quoted_identifier (map fst sch)"
  by (simp add: create_table_def split_def comp_def)

text \<open>What the loop leaves in the table of a specification that declares no field \<open>id\<close>.\<close>

lemma write_dimensions_rows:
  assumes "write_dimensions part data config db0 = (db, None)"
    and "distinct (map (fold_identifier \<circ> fst) config)"
    and "(table_name, table_fields) \<in> set config"
    and "\<forall>fd\<in>set table_fields. \<not> same_name (field fd) ''id''"
  shows "\<exists>t sc. map_of db (fold_identifier table_name) = Some t
           \<and> select_cast table_fields data = Inr sc
           \<and> map fst (tcolumns t) = map (quoted_identifier \<circ> field) table_fields @ [''id'']
           \<and> primary_key t = Some ''id''
           \<and> foreign_keys t = []
           \<and> (\<forall>r\<in>set (trows t). length r = Suc (length table_fields))
           \<and> map (take (length table_fields)) (trows t) = concat (distinct_partitions part (rows sc))
           \<and> map (\<lambda>r. r ! length table_fields) (trows t)
               = map IntV (partition_ids (distinct_partitions part (rows sc)))
           \<and> distinct (partition_ids (distinct_partitions part (rows sc)))"
proof -
  from write_dimensions_table [OF assms(1-3)] obtain df vs where
    df: "dimension_frame part data table_fields = Inr df"
    and vs: "column_values ((create_table (schema df))\<lparr>trows := rows df\<rparr>) ''id'' = Some vs"
    and d: "distinct vs"
    and m: "map_of db (fold_identifier table_name)
               = Some ((create_table (schema df))\<lparr>trows := rows df, primary_key := Some ''id''\<rparr>)"
    by blast
  let ?t = "(create_table (schema df))\<lparr>trows := rows df, primary_key := Some ''id''\<rparr>"
  from df assms(4) obtain sc where sc: "select_cast table_fields data = Inr sc"
    by (rule dimension_frame_Inr)
  note keys = dimension_frame_keys [OF df assms(4) sc]
  have cols: "columns df = map field table_fields @ [''id'']"
    by (rule dimension_frame_columns [OF df assms(4)])
  have tc: "map fst (tcolumns ?t) = map (quoted_identifier \<circ> field) table_fields @ [''id'']"
    using cols by (simp add: tcolumns_create_table columns_def [symmetric] quoted_identifier_def)
  have "''id'' \<notin> set (map (quoted_identifier \<circ> field) table_fields)"
  proof
    assume "''id'' \<in> set (map (quoted_identifier \<circ> field) table_fields)"
    then obtain fd where fd: "fd \<in> set table_fields" and "quoted_identifier (field fd) = ''id''"
      by auto
    then have "field fd = ''id''" by (simp add: quoted_identifier_id)
    with assms(4) fd show False by (auto simp: same_name_def)
  qed
  then have ix: "index_of (map fst (tcolumns ?t)) ''id'' = Some (length table_fields)"
    unfolding tc using index_of_append [of "''id''" "map (quoted_identifier \<circ> field) table_fields"]
    by simp
  from vs have "vs = map (\<lambda>r. r ! length table_fields) (rows df)"
    using ix by (simp add: column_values_def)
  with d keys(2) have "distinct (map IntV (partition_ids (distinct_partitions part (rows sc))))"
    by simp
  then have di: "distinct (partition_ids (distinct_partitions part (rows sc)))"
    by (simp add: distinct_map)
  have rl: "\<forall>r\<in>set (trows ?t). length r = Suc (length table_fields)"
    using dimension_frame_row_length [OF df assms(4)] by simp
  have fk: "foreign_keys ?t = []" by (simp add: create_table_def)
  show ?thesis
    apply (intro exI [of _ ?t] exI [of _ sc] conjI)
            apply (rule m)
           apply (rule sc)
          apply (rule tc)
         apply simp
        apply (rule fk)
       apply (rule rl)
      apply (simp add: keys(1))
     apply (simp add: keys(2))
    apply (rule di)
    done
qed


subsection \<open>The registry of the notebook\<close>

lemma registry_table_names: "distinct (map (fold_identifier \<circ> fst) DIMENSION_TABLES_CONFIG)"
  by code_simp

lemma registry_fields:
  "\<forall>(table_name, table_fields)\<in>set DIMENSION_TABLES_CONFIG.
     \<forall>fd\<in>set table_fields. \<not> same_name (field fd) ''id'' \<and> quoted_identifier (field fd) = field fd"
  by code_simp

lemma registry_field:
  assumes "(table_name, table_fields) \<in> set DIMENSION_TABLES_CONFIG"
  shows "\<forall>fd\<in>set table_fields. \<not> same_name (field fd) ''id''"
    and "map (quoted_identifier \<circ> field) table_fields = map field table_fields"
  using registry_fields assms by auto

subsection \<open>Surrogate keys of a bounded dataset\<close>










subsection \<open>The schema of the fact table\<close>

lemma facts_table_sql_statements:
  "facts_table_sql fact_table_name fact_columns dim_tables =
     newline
     @ statement_text (facts_table_statements fact_table_name fact_columns dim_tables ! 0)
     @ ''    '' @ newline
     @ ''    -- Adding Foreign Keys'' @ newline
     @ statement_text (facts_table_statements fact_table_name fact_columns dim_tables ! 1)"
  by (simp add: facts_table_sql_def facts_table_statements_def column_definitions_def
      constraint_clauses_def column_definition_def constraint_clause_def comp_def)







subsection \<open>Building the fact table's schema\<close>


lemma add_foreign_keys_names:
  assumes "add_foreign_keys db clauses t = Inr t'"
  shows "set (map fst (foreign_keys t)) \<union> (fold_identifier \<circ> fst) ` set clauses
           \<subseteq> set (map fst (foreign_keys t'))"
  using assms
proof (induction clauses arbitrary: t)
  case Nil
  then show ?case by simp
next
  case (Cons cl clauses)
  obtain c col ref where cl: "cl = (c, col, ref)" by (cases cl)
  let ?t1 = "t\<lparr>foreign_keys := foreign_keys t
                 @ [(fold_identifier c, fold_identifier col, fold_identifier ref)]\<rparr>"
  from Cons.prems have "add_foreign_keys db clauses ?t1 = Inr t'"
    by (auto simp: cl split: if_splits option.splits)
  from Cons.IH [OF this] show ?case by (auto simp: cl)
qed




subsection \<open>Dimension tables: deduplication\<close>

lemma sample_dimensions_written:
  "write_dimensions sample_part census_sample DIMENSION_TABLES_CONFIG [] = (sample_dimensions, None)"
  by code_simp

lemma sample_tp_dependencia:
  "(''DIM_TP_DEPENDENCIA'', [\<lparr>field = ''TP_DEPENDENCIA'', type = ''integer''\<rparr>])
     \<in> set DIMENSION_TABLES_CONFIG"
  by (simp add: DIMENSION_TABLES_CONFIG_eq)

text \<open>
  C2. When the materialization loop has run through, the store holds a table for every
  dimension spec of the registry. The table has the declared fields as its first
  columns, followed by \<open>id\<close>. Projected on the declared fields, no two of its rows are
  equal, and these projections are exactly the rows of the dataset projected on the
  declared fields and cast to the declared types. Rows are compared as values, so two
  nulls in the same field are equal: the deduplication is by full-row equality over the
  projected and cast fields.
\<close>

theorem materialized_dimension_deduplicated:
  assumes "write_dimensions part data DIMENSION_TABLES_CONFIG db0 = (db, None)"
    and "(table_name, table_fields) \<in> set DIMENSION_TABLES_CONFIG"
  shows "\<exists>t sc. map_of db (fold_identifier table_name) = Some t
           \<and> select_cast table_fields data = Inr sc
           \<and> map fst (tcolumns t) = map field table_fields @ [''id'']
           \<and> distinct (map (take (length table_fields)) (trows t))
           \<and> set (map (take (length table_fields)) (trows t)) = set (rows sc)"
proof -
  note nid = registry_field [OF assms(2)]
  from write_dimensions_rows [OF assms(1) registry_table_names assms(2) nid(1)]
  obtain t sc where t: "map_of db (fold_identifier table_name) = Some t"
    and sc: "select_cast table_fields data = Inr sc"
    and cols: "map fst (tcolumns t) = map (quoted_identifier \<circ> field) table_fields @ [''id'']"
    and keys: "map (take (length table_fields)) (trows t)
                 = concat (distinct_partitions part (rows sc))"
    by blast
  have "distinct (map (take (length table_fields)) (trows t))"
    unfolding keys by (rule distinct_distinct_partitions)
  moreover have "set (map (take (length table_fields)) (trows t)) = set (rows sc)"
    unfolding keys by (rule set_distinct_partitions)
  moreover have "map fst (tcolumns t) = map field table_fields @ [''id'']"
    using cols nid(2) by simp
  ultimately show ?thesis using t sc by blast
qed

theorem materialized_dimension_deduplicated_witness:
  "write_dimensions sample_part census_sample DIMENSION_TABLES_CONFIG [] = (sample_dimensions, None)
   \<and> (''DIM_TP_DEPENDENCIA'', [\<lparr>field = ''TP_DEPENDENCIA'', type = ''integer''\<rparr>])
       \<in> set DIMENSION_TABLES_CONFIG
   \<and> (\<exists>t sc. map_of sample_dimensions (fold_identifier ''DIM_TP_DEPENDENCIA'') = Some t
         \<and> select_cast [\<lparr>field = ''TP_DEPENDENCIA'', type = ''integer''\<rparr>] census_sample = Inr sc
         \<and> map fst (tcolumns t) = [''TP_DEPENDENCIA'', ''id'']
         \<and> distinct (map (take 1) (trows t))
         \<and> set (map (take 1) (trows t)) = set (rows sc))"
  using materialized_dimension_deduplicated [OF sample_dimensions_written sample_tp_dependencia]
    sample_dimensions_written sample_tp_dependencia
  by simp

subsection \<open>More than \<open>2^33\<close> rows in one partition\<close>












subsection \<open>Dimension tables: surrogate keys\<close>




subsection \<open>The schema build as one unit\<close>



lemma incomplete_build_partial:
  "map_of (session (fst (cursor_execute
       (facts_table_statements FACT_TABLE_NAME FACT_COLUMNS (dict_keys DIMENSION_ID_CONFIG))
       incomplete_connection))) ''fact_censo_escolar'' \<noteq> None
   \<and> map_of (committed incomplete_connection) ''fact_censo_escolar'' = None"
  by code_simp


subsection \<open>Building the schema twice\<close>

lemma sample_build:
  "create_facts_table
       (facts_table_statements FACT_TABLE_NAME FACT_COLUMNS (dict_keys DIMENSION_ID_CONFIG))
       sample_connection
     = (built_connection, None)"
  by code_simp

text \<open>
  C5, the case that refutes it. On the store that holds the dimension tables of the
  example the schema cell builds the fact table. Run again on the connection it leaves,
  the cell leaves the connection as it is, but the store raises an error, which the cell
  prints: the first foreign-key constraint exists already.
\<close>

theorem schema_rebuild_raises_error:
  "create_facts_table
       (facts_table_statements FACT_TABLE_NAME FACT_COLUMNS (dict_keys DIMENSION_ID_CONFIG))
       sample_connection
     = (built_connection, None)
   \<and> create_facts_table
       (facts_table_statements FACT_TABLE_NAME FACT_COLUMNS (dict_keys DIMENSION_ID_CONFIG))
       built_connection
     = (built_connection, Some (DuplicateObject ''FACT_CENSO_ESCOLAR_DIM_LOCAL_fk''))"
  by code_simp

text \<open>
  C5, as it holds. When the schema cell has built the fact table without an exception,
  running it again on the connection it left changes nothing in the store: the table
  creation is skipped, the \<open>ALTER TABLE\<close> is refused at its first clause because the
  constraint of the first dimension table exists already, and the cell prints that
  error and rolls back.
\<close>

theorem schema_rebuild_leaves_schema:
  assumes "create_facts_table (facts_table_statements fact_table_name fact_columns dim_tables) conn
             = (conn1, None)"
  shows "create_facts_table (facts_table_statements fact_table_name fact_columns dim_tables) conn1
           = (conn1, Some (DuplicateObject (fact_table_name @ ''_'' @ hd dim_tables @ ''_fk'')))"
proof -
  let ?cols = "map (\<lambda>field. (field, INTEGER)) fact_columns
           @ map (\<lambda>dim_table. (''ID_'' @ dim_table, BIGINT)) dim_tables"
  let ?clause = "\<lambda>dim_table. (fact_table_name @ ''_'' @ dim_table @ ''_fk'',
                ''ID_'' @ dim_table, dim_table)"
  let ?clauses = "map ?clause dim_tables"
  let ?name = "fold_identifier fact_table_name"
  from assms have ne: "dim_tables \<noteq> []"
    by (auto simp: create_facts_table_def cursor_execute_def facts_table_statements_def
        split: if_splits)
  then obtain d ds where dims: "dim_tables = d # ds" by (cases dim_tables) auto
  from assms ne obtain db1 where
    c: "create_table_if_not_exists fact_table_name (''id'', SERIAL) ?cols (session conn) = Inr db1"
    by (cases "create_table_if_not_exists fact_table_name (''id'', SERIAL) ?cols (session conn)")
       (auto simp: create_facts_table_def cursor_execute_def facts_table_statements_def)
  from assms ne c obtain db2 where
    a: "alter_table_add_foreign_keys fact_table_name ?clauses db1 = Inr db2"
    by (cases "alter_table_add_foreign_keys fact_table_name ?clauses db1")
       (auto simp: create_facts_table_def cursor_execute_def facts_table_statements_def)
  from assms ne c a have conn1: "conn1 = \<lparr>committed = db2, session = db2\<rparr>"
    by (auto simp: create_facts_table_def cursor_execute_def facts_table_statements_def
        commit_def)
  from a obtain t t' where t: "map_of db1 ?name = Some t"
    and fk: "add_foreign_keys db1 ?clauses t = Inr t'"
    and db2: "db2 = dict_set db1 ?name t'"
    by (auto simp: alter_table_add_foreign_keys_def split: option.splits sum.splits list.splits)
  have ex: "?name \<in> set (dict_keys db2)"
    unfolding db2 dict_keys_def by (simp only: set_keys_dict_set) simp
  have c2: "create_table_if_not_exists fact_table_name (''id'', SERIAL) ?cols db2 = Inr db2"
    using ex by (simp add: create_table_if_not_exists_def)
  have t2: "map_of db2 ?name = Some t'" by (simp add: db2 map_of_dict_set)
  have "fold_identifier (fst (?clause d)) \<in> set (map fst (foreign_keys t'))"
    using add_foreign_keys_names [OF fk] by (auto simp: dims)
  then have "add_foreign_keys db2 ?clauses t'
               = Inl (DuplicateObject (fact_table_name @ ''_'' @ d @ ''_fk''))"
    by (simp add: dims)
  then have a2: "alter_table_add_foreign_keys fact_table_name ?clauses db2
               = Inl (DuplicateObject (fact_table_name @ ''_'' @ d @ ''_fk''))"
    by (simp add: alter_table_add_foreign_keys_def t2)
  show ?thesis
    using ne c2 a2
    by (simp add: create_facts_table_def cursor_execute_def facts_table_statements_def conn1
        rollback_def dims)
qed

theorem schema_rebuild_leaves_schema_witness:
  "create_facts_table
       (facts_table_statements FACT_TABLE_NAME FACT_COLUMNS (dict_keys DIMENSION_ID_CONFIG))
       sample_connection
     = (built_connection, None)
   \<and> create_facts_table
       (facts_table_statements FACT_TABLE_NAME FACT_COLUMNS (dict_keys DIMENSION_ID_CONFIG))
       built_connection
     = (built_connection,
        Some (DuplicateObject
               (FACT_TABLE_NAME @ ''_'' @ hd (dict_keys DIMENSION_ID_CONFIG) @ ''_fk'')))"
  using schema_rebuild_leaves_schema [OF sample_build] sample_build
  by simp

subsection \<open>The column order of the fact rows\<close>





end
